theory Spec2Isabelle
  imports Complex_Main
begin

section \<open>Conventions\<close>

text \<open>
  The development follows the Python sources of the backtester:
  \<^verbatim>\<open>Framework/algorithm.py\<close>, \<^verbatim>\<open>Framework/data_utils.py\<close>,
  \<^verbatim>\<open>MACrossover/backtest.py\<close> and
  \<^verbatim>\<open>BinanceDataPipeline/binance_data_pipeline.py\<close>.

  \<^item> In the trade simulation Python floats are read as real numbers: rounding, overflow
    and infinities are left out, and a price is a number. The pipeline converts the price
    columns with \<^verbatim>\<open>to_numeric(errors="coerce")\<close>, which turns a malformed cell into NaN;
    on a bar whose open price is NaN the loss comparison of \<^verbatim>\<open>on_new_row\<close> is false and
    its mark-to-market assignment leaves NaN as total capital. Such bars are outside the
    simulation as modelled here: its properties are stated for bars whose open price is
    a number.
  \<^item> The summary statistics are computed in double precision, every operation rounded
    (section on double-precision arithmetic): their results turn on the rounding.
  \<^item> NaN is written out where a source cell starts as NaN or where a library call
    yields it: such a cell is a \<open>real option\<close>, \<open>None\<close> being NaN.
  \<^item> A raised exception is a value of type \<open>exn\<close>. A method that mutates its object
    returns the object after the call; a method that may raise after having mutated the
    object returns both the exception (if any) and the object as left behind.
  \<^item> A \<^verbatim>\<open>pd.DataFrame\<close> is the list of its rows in index order. The index labels
    (the pipeline's \<^verbatim>\<open>Close time\<close>) are expected to be distinct and to hold every label
    that is written to; for a label outside the index pandas would add a row of NaN cells,
    which the row type below cannot hold.
\<close>

section \<open>Exceptions\<close>

datatype exn =
    ZeroDivisionError
  | IndexError
  | AttributeError
  | Raised string
  | ValueError string

text \<open>\<^verbatim>\<open>str(e)\<close>, as interpolated by an f-string. \<open>Raised m\<close> stands for any exception
  raised by the pluggable signal detector, with message \<open>m\<close>.\<close>

fun exn_str :: "exn \<Rightarrow> string" where
  "exn_str ZeroDivisionError = ''float division by zero''"
| "exn_str IndexError = ''index 0 is out of bounds for axis 0 with size 0''"
| "exn_str AttributeError = ''object has no attribute''"
| "exn_str (Raised m) = m"
| "exn_str (ValueError m) = m"

text \<open>Division of two Python floats.\<close>

definition truediv :: "real \<Rightarrow> real \<Rightarrow> exn + real" where
  "truediv a b = (if b = 0 then Inl ZeroDivisionError else Inr (a / b))"

section \<open>Data model\<close>

text \<open>A row as \<^verbatim>\<open>iterrows\<close> yields it (a \<^verbatim>\<open>pd.Series\<close>): \<open>name\<close> is the index label,
  \<open>Open\<close> the open price, a number (a NaN open price is not represented), \<open>cols\<close> holds
  the columns this development does not read (high, low, close, volumes, indicator
  columns).\<close>

record 'c bar =
  name :: int
  Open_time :: int
  Open :: real
  cols :: 'c

text \<open>The trade dictionaries. An entry dictionary has the keys \<^verbatim>\<open>time\<close>,
  \<^verbatim>\<open>entry_capital\<close> and \<^verbatim>\<open>entry_price\<close>; the key \<^verbatim>\<open>type\<close> is the constructor.\<close>

record entry_trade =
  time :: int
  entry_capital :: real
  entry_price :: real

datatype trade =
    entry entry_trade
  | exit_stop_limit int real
  | exit int real real

fun trade_time :: "trade \<Rightarrow> int" where
  "trade_time (entry t) = time t"
| "trade_time (exit_stop_limit tm c) = tm"
| "trade_time (exit tm p c) = tm"

text \<open>A row of the data frame: the market columns, the \<^verbatim>\<open>Capital Log\<close> cell (NaN is
  \<open>None\<close>) and the \<^verbatim>\<open>Trade Log\<close> cell. \<open>has_Trade_Log\<close> says whether the frame has the
  \<^verbatim>\<open>Trade Log\<close> column at all; without it the \<open>Trade_Log\<close> cells mean nothing.\<close>

record 'c frame_row =
  bar :: "'c bar"
  Capital_Log :: "real option"
  Trade_Log :: "trade list"

record 'c frame =
  rows :: "'c frame_row list"
  has_Trade_Log :: bool

record CapitalManagement =
  total_capital :: real
  liquid_capital :: real
  fee :: real
  slippage :: real

record RiskManagement =
  position_size :: real
  max_loss_pct :: real

text \<open>The pluggable detector. \<^verbatim>\<open>detect_entry\<close> returns a string or \<^verbatim>\<open>None\<close>,
  \<^verbatim>\<open>detect_exit\<close> a truth value; either may raise.\<close>

record 'c SignalDetector =
  detect_entry :: "'c bar \<Rightarrow> 'c bar \<Rightarrow> exn + string option"
  detect_exit :: "'c bar \<Rightarrow> 'c bar \<Rightarrow> exn + bool"

text \<open>The detector of \<^verbatim>\<open>Framework/algorithm.py\<close>: both bodies are placeholders, so both
  return \<^verbatim>\<open>None\<close>.\<close>

definition SignalDetector_placeholder :: "'c SignalDetector" where
  "SignalDetector_placeholder =
     \<lparr>detect_entry = (\<lambda>previous_row current_row. Inr None),
      detect_exit = (\<lambda>previous_row current_row. Inr False)\<rparr>"

text \<open>The algorithm object. Its capital manager, its trade executor and the algorithm
  itself refer to one and the same \<^verbatim>\<open>DataFrame\<close>, and the executor refers to the
  algorithm's own managers: one \<open>data\<close> field and one copy of each manager hold it all.\<close>

record 'c Algorithm =
  capital_manager :: CapitalManagement
  risk_manager :: RiskManagement
  current_trade :: "entry_trade option"
  data :: "'c frame"

section \<open>data\_utils.py: log\_trade\<close>

definition log_trade :: "trade \<Rightarrow> 'c frame \<Rightarrow> 'c frame" where
  "log_trade tr d =
     (let d1 = (if has_Trade_Log d then d
                else d\<lparr>rows := map (\<lambda>r. r\<lparr>Trade_Log := []\<rparr>) (rows d), has_Trade_Log := True\<rparr>)
      in d1\<lparr>rows := map (\<lambda>r. if Open_time (bar r) = trade_time tr
                                then r\<lparr>Trade_Log := Trade_Log r @ [tr]\<rparr> else r) (rows d1)\<rparr>)"

section \<open>algorithm.py\<close>

subsection \<open>CapitalManagement\<close>

text \<open>\<^verbatim>\<open>data.loc[label, "Capital Log"] = v\<close> and \<^verbatim>\<open>data.at[label, "Capital Log"] = v\<close>.\<close>

definition set_Capital_Log :: "int \<Rightarrow> real \<Rightarrow> 'c frame \<Rightarrow> 'c frame" where
  "set_Capital_Log label v d =
     d\<lparr>rows := map (\<lambda>r. if name (bar r) = label then r\<lparr>Capital_Log := Some v\<rparr> else r) (rows d)\<rparr>"

text \<open>The constructor fills the column with NaN, then reads \<^verbatim>\<open>data.index[0]\<close>, which
  raises on a frame without rows.\<close>

definition CapitalManagement_init ::
  "real \<Rightarrow> real \<Rightarrow> real \<Rightarrow> 'c frame \<Rightarrow> exn + CapitalManagement \<times> 'c frame" where
  "CapitalManagement_init initial_capital fee0 slippage0 d =
     (let d1 = d\<lparr>rows := map (\<lambda>r. r\<lparr>Capital_Log := None\<rparr>) (rows d)\<rparr>
      in case rows d1 of
           [] \<Rightarrow> Inl IndexError
         | r # rs \<Rightarrow>
             Inr (\<lparr>total_capital = initial_capital, liquid_capital = initial_capital,
                   fee = fee0, slippage = slippage0\<rparr>,
                  set_Capital_Log (name (bar r)) initial_capital d1))"

definition log_capital :: "'c Algorithm \<Rightarrow> 'c bar \<Rightarrow> 'c Algorithm" where
  "log_capital alg row =
     alg\<lparr>data := set_Capital_Log (name row) (total_capital (capital_manager alg)) (data alg)\<rparr>"

subsection \<open>RiskManagement\<close>

definition compute_current_loss :: "entry_trade \<Rightarrow> 'c bar \<Rightarrow> exn + real" where
  "compute_current_loss tr current_row =
     (let current_price = Open current_row
      in case truediv current_price (entry_price tr) of
           Inl e \<Rightarrow> Inl e
         | Inr q \<Rightarrow>
             (let potential_exit_capital = entry_capital tr * q
              in Inr (entry_capital tr - potential_exit_capital)))"

subsection \<open>TradeExecution\<close>

definition execute_entry :: "'c Algorithm \<Rightarrow> 'c bar \<Rightarrow> entry_trade \<times> 'c Algorithm" where
  "execute_entry alg current_row =
     (let cm = capital_manager alg;
          entry_amount = liquid_capital cm * position_size (risk_manager alg);
          cm1 = cm\<lparr>liquid_capital := liquid_capital cm - entry_amount\<rparr>;
          initial_trade_capital = entry_amount * (1 - fee cm1 - slippage cm1);
          cm2 = cm1\<lparr>total_capital := liquid_capital cm1 + initial_trade_capital\<rparr>;
          tr = \<lparr>time = Open_time current_row, entry_capital = initial_trade_capital,
                entry_price = Open current_row\<rparr>
      in (tr, alg\<lparr>capital_manager := cm2, data := log_trade (entry tr) (data alg)\<rparr>))"

text \<open>The exit capital of the trade dictionary that \<^verbatim>\<open>execute_exit\<close> builds.\<close>

fun exit_capital :: "trade \<Rightarrow> real" where
  "exit_capital (exit_stop_limit tm c) = c"
| "exit_capital (exit tm p c) = c"
| "exit_capital (entry t) = 0"

definition execute_exit ::
  "'c Algorithm \<Rightarrow> entry_trade \<Rightarrow> 'c bar \<Rightarrow> bool \<Rightarrow> exn + 'c Algorithm" where
  "execute_exit alg tr current_row stop_limit =
     (let cm = capital_manager alg;
          fee_slip_multiplier = 1 - (fee cm + slippage cm);
          built =
            (if stop_limit then
               (let price_change_multiplier = 1 - max_loss_pct (risk_manager alg)
                in Inr (exit_stop_limit (Open_time current_row)
                          (price_change_multiplier * entry_capital tr * fee_slip_multiplier)))
             else
               (case truediv (Open current_row) (entry_price tr) of
                  Inl e \<Rightarrow> Inl e
                | Inr price_change_multiplier \<Rightarrow>
                    Inr (exit (Open_time current_row) (Open current_row)
                           (price_change_multiplier * entry_capital tr * fee_slip_multiplier))))
      in case built of
           Inl e \<Rightarrow> Inl e
         | Inr t \<Rightarrow>
             (let cm1 = cm\<lparr>liquid_capital := liquid_capital cm + exit_capital t\<rparr>;
                  cm2 = cm1\<lparr>total_capital := liquid_capital cm1\<rparr>
              in Inr (alg\<lparr>capital_manager := cm2, data := log_trade t (data alg)\<rparr>)))"

subsection \<open>Algorithm\<close>

definition Algorithm_init ::
  "'c frame \<Rightarrow> real \<Rightarrow> real \<Rightarrow> real \<Rightarrow> real \<Rightarrow> real \<Rightarrow> exn + 'c Algorithm" where
  "Algorithm_init d initial_capital fee0 slippage0 position_size0 max_loss_pct0 =
     (case CapitalManagement_init initial_capital fee0 slippage0 d of
        Inl e \<Rightarrow> Inl e
      | Inr (cm, d1) \<Rightarrow>
          Inr \<lparr>capital_manager = cm,
               risk_manager = \<lparr>position_size = position_size0, max_loss_pct = max_loss_pct0\<rparr>,
               current_trade = None,
               data = d1\<rparr>)"

text \<open>One transition. The result is the exception raised, if any, and the algorithm object
  after the call: \<^verbatim>\<open>log_capital\<close> has run before anything can raise.\<close>

definition on_new_row ::
  "'c SignalDetector \<Rightarrow> 'c Algorithm \<Rightarrow> 'c bar \<Rightarrow> 'c bar \<Rightarrow> exn option \<times> 'c Algorithm" where
  "on_new_row sd alg previous_row current_row =
     (let alg1 = log_capital alg current_row
      in case current_trade alg1 of
           None \<Rightarrow>
             (case detect_entry sd previous_row current_row of
                Inl e \<Rightarrow> (Some e, alg1)
              | Inr signal \<Rightarrow>
                  if signal = Some ''Entry'' then
                    (let (tr, alg2) = execute_entry alg1 current_row
                     in (None, alg2\<lparr>current_trade := Some tr\<rparr>))
                  else (None, alg1))
         | Some tr \<Rightarrow>
             (case compute_current_loss tr current_row of
                Inl e \<Rightarrow> (Some e, alg1)
              | Inr current_loss \<Rightarrow>
                  if current_loss \<ge> max_loss_pct (risk_manager alg1) * entry_capital tr then
                    (case execute_exit alg1 tr current_row True of
                       Inl e \<Rightarrow> (Some e, alg1)
                     | Inr alg2 \<Rightarrow> (None, alg2\<lparr>current_trade := None\<rparr>))
                  else
                    (case detect_exit sd previous_row current_row of
                       Inl e \<Rightarrow> (Some e, alg1)
                     | Inr signal \<Rightarrow>
                         if signal then
                           (case execute_exit alg1 tr current_row False of
                              Inl e \<Rightarrow> (Some e, alg1)
                            | Inr alg2 \<Rightarrow> (None, alg2\<lparr>current_trade := None\<rparr>))
                         else
                           (case truediv (Open current_row) (entry_price tr) of
                              Inl e \<Rightarrow> (Some e, alg1)
                            | Inr price_change_multipler \<Rightarrow>
                                (let current_capital_in_trade = entry_capital tr * price_change_multipler
                                 in (None, alg1\<lparr>capital_manager := (capital_manager alg1)
                                       \<lparr>total_capital := liquid_capital (capital_manager alg1)
                                                           + current_capital_in_trade\<rparr>\<rparr>))))))"

section \<open>backtest.py: RunBacktest\<close>

text \<open>The \<^verbatim>\<open>for\<close> loop of \<^verbatim>\<open>run_backtest\<close> from the second row on: \<open>previous_row\<close> is
  the row before, \<open>remaining\<close> the rows still to come. \<^verbatim>\<open>iterrows\<close> reads the market
  columns once, when the loop starts, so the rows are those of the frame at that moment.
  An exception of \<^verbatim>\<open>on_new_row\<close> is replaced by a \<^verbatim>\<open>ValueError\<close> whose message is
  \<^verbatim>\<open>f"Error processing new row: {e}"\<close>.\<close>

fun run_backtest_loop ::
  "'c SignalDetector \<Rightarrow> 'c Algorithm \<Rightarrow> 'c bar \<Rightarrow> 'c bar list \<Rightarrow> exn option \<times> 'c Algorithm" where
  "run_backtest_loop sd alg previous_row [] = (None, alg)"
| "run_backtest_loop sd alg previous_row (row # remaining) =
     (case on_new_row sd alg previous_row row of
        (Some e, alg') \<Rightarrow> (Some (ValueError (''Error processing new row: '' @ exn_str e)), alg')
      | (None, alg') \<Rightarrow> run_backtest_loop sd alg' row remaining)"

text \<open>What a call of \<^verbatim>\<open>run_backtest\<close> leaves: the exception it raised, if any, the
  algorithm object, and the frame pickled into \<^verbatim>\<open>data_log.pkl\<close> by this call, if any.
  Writing the file itself is taken to succeed.\<close>

record 'c run =
  raised :: "exn option"
  algorithm :: "'c Algorithm"
  data_log_pkl :: "'c frame option"

definition run_backtest :: "'c SignalDetector \<Rightarrow> 'c Algorithm \<Rightarrow> 'c run" where
  "run_backtest sd alg =
     (case map bar (rows (data alg)) of
        [] \<Rightarrow> \<lparr>raised = None, algorithm = alg, data_log_pkl = Some (data alg)\<rparr>
      | first_row # remaining \<Rightarrow>
          (case run_backtest_loop sd alg first_row remaining of
             (Some e, alg') \<Rightarrow> \<lparr>raised = Some e, algorithm = alg', data_log_pkl = None\<rparr>
           | (None, alg') \<Rightarrow> \<lparr>raised = None, algorithm = alg', data_log_pkl = Some (data alg')\<rparr>))"

section \<open>Double-precision arithmetic\<close>

text \<open>The summary statistics turn on what rounding leaves of a value: whether a variance
  is exactly zero, on which side of a decimal tie a percentage lies. There every float
  operation is rounded: \<open>fl x\<close> is the double nearest to the real \<open>x\<close>, a tie going to the
  even significand (IEEE 754 binary64, round to nearest even). Overflow to an infinity
  is left out; the smallest binade is that of the subnormal numbers.\<close>

definition pow2 :: "int \<Rightarrow> real" where
  "pow2 e = (if 0 \<le> e then 2 ^ nat e else 1 / 2 ^ nat (- e))"

text \<open>The binade of a positive real \<open>a\<close>: the exponent \<open>e\<close> with \<open>2^e \<le> a < 2^(e+1)\<close>, within
  the exponent range of a double. The search goes up from 0 or down from -1.\<close>

function binade_up :: "real \<Rightarrow> int \<Rightarrow> int" where
  "binade_up a e = (if 1023 \<le> e \<or> a < pow2 (e + 1) then e else binade_up a (e + 1))"
  by pat_completeness auto
termination
  by (relation "measure (\<lambda>(a, e). nat (1023 - e))") auto

function binade_down :: "real \<Rightarrow> int \<Rightarrow> int" where
  "binade_down a e = (if e \<le> - 1022 \<or> pow2 e \<le> a then e else binade_down a (e - 1))"
  by pat_completeness auto
termination
  by (relation "measure (\<lambda>(a, e). nat (e + 1022))") auto

declare binade_up.simps [simp del] binade_down.simps [simp del]

definition binade :: "real \<Rightarrow> int" where
  "binade a = (if 1 \<le> a then binade_up a 0 else binade_down a (- 1))"

definition round_half_even :: "real \<Rightarrow> int" where
  "round_half_even y =
     (let f = \<lfloor>y\<rfloor>; d = y - of_int f
      in if d < 1 / 2 then f else if d > 1 / 2 then f + 1 else if even f then f else f + 1)"

definition fl :: "real \<Rightarrow> real" where
  "fl x = (if x = 0 then 0
           else (let u = pow2 (binade \<bar>x\<bar> - 52) in of_int (round_half_even (x / u)) * u))"

section \<open>backtest.py: BacktestDataUtils\<close>

text \<open>The columns of the annotated frame that the summary statistics read. A return cell
  is NaN (\<open>None\<close>) in the first row, and a double otherwise. The \<^verbatim>\<open>Market Regime\<close> column
  holds strings. The \<^verbatim>\<open>Volatility Regime\<close> column is the categorical that
  \<^verbatim>\<open>pd.qcut(..., q=3, labels=["low", "medium", "high"])\<close> returns: its categories are
  these three whatever the rows hold, and a cell is NaN where there was no value to bin.\<close>

datatype volatility = low | medium | high

record annotated_row =
  Capital_Returns :: "real option"
  Market_Returns :: "real option"
  Market_Regime :: "string option"
  Volatility_Regime :: "volatility option"

text \<open>A \<^verbatim>\<open>numpy.float64\<close> as a division yields it.\<close>

datatype float64 = Finite real | nan | inf | neg_inf

record BacktestDataStorage =
  storage_data :: "annotated_row list option"
  beta :: "float64 option"
  volatility_regime_avg_returns :: "(volatility \<rightharpoonup> real option) option"
  market_regime_avg_returns :: "(string \<rightharpoonup> real option) option"

subsection \<open>calc\_beta\<close>

text \<open>The rows of two columns where both cells are present.\<close>

definition complete_pairs :: "(real option \<times> real option) list \<Rightarrow> (real \<times> real) list" where
  "complete_pairs cells = concat (map (\<lambda>(a, b). case (a, b) of (Some x, Some y) \<Rightarrow> [(x, y)] | _ \<Rightarrow> []) cells)"

text \<open>\<^verbatim>\<open>DataFrame.cov()\<close> has two paths. On a frame with a NaN cell it calls pandas' own
  \<^verbatim>\<open>nancorr\<close>, which runs Welford's recurrence over the rows where both cells of a pair
  of columns are present: one step per row, on the number of rows seen, the two running
  means and the running co-moment. The entry is the co-moment over \<open>nobs - 1\<close>, and NaN
  when no row or only one row was seen.\<close>

definition welford_step ::
  "nat \<times> real \<times> real \<times> real \<Rightarrow> real \<times> real \<Rightarrow> nat \<times> real \<times> real \<times> real" where
  "welford_step s v =
     (case (s, v) of ((nobs, meanx, meany, covxy), (vx, vy)) \<Rightarrow>
        (let nobs1 = nobs + 1;
             dx = fl (vx - meanx);
             dy = fl (vy - meany);
             meanx1 = fl (meanx + fl (fl (1 / real nobs1) * dx));
             meany1 = fl (meany + fl (fl (1 / real nobs1) * dy));
             covxy1 = fl (covxy + fl (fl (vx - meanx1) * dy))
         in (nobs1, meanx1, meany1, covxy1)))"

definition nancorr_cov :: "(real option \<times> real option) list \<Rightarrow> real option" where
  "nancorr_cov cells =
     (case foldl welford_step (0, 0, 0, 0) (complete_pairs cells) of
        (nobs, meanx, meany, covxy) \<Rightarrow>
          if nobs < 1 then None
          else (let divisor = real nobs - 1
                in if divisor \<noteq> 0 then Some (fl (covxy / divisor)) else None))"

text \<open>On a frame without any NaN cell \<^verbatim>\<open>DataFrame.cov()\<close> calls \<^verbatim>\<open>numpy.cov\<close>: the
  mean of each column is its sum over the number of rows; the deviations from the mean
  are multiplied and summed, and the sum is multiplied by \<open>1 / (n - 1)\<close>. With fewer
  than two rows the entry is NaN. The sums are taken in row order, which is numpy's
  order for a short column (fewer than eight rows); it adds a longer column in blocks,
  and the order within the matrix product is the linear algebra library's, so the last
  bits of an entry can differ there.\<close>

definition float64_sum :: "real list \<Rightarrow> real" where
  "float64_sum xs = foldl (\<lambda>s x. fl (s + x)) 0 xs"

definition float64_mean :: "real list \<Rightarrow> real" where
  "float64_mean xs = fl (float64_sum xs / real (length xs))"

definition float64_dot :: "real list \<Rightarrow> real list \<Rightarrow> real" where
  "float64_dot xs ys = float64_sum (map (\<lambda>(x, y). fl (x * y)) (zip xs ys))"

definition numpy_cov :: "real list \<Rightarrow> real list \<Rightarrow> real option" where
  "numpy_cov xs ys =
     (let n = length xs;
          dx = map (\<lambda>x. fl (x - float64_mean xs)) xs;
          dy = map (\<lambda>y. fl (y - float64_mean ys)) ys
      in if n < 2 then None
         else Some (fl (float64_dot dx dy * fl (1 / (real n - 1)))))"

text \<open>Division of two \<^verbatim>\<open>numpy.float64\<close> scalars (\<open>None\<close> is NaN): a zero divisor gives
  NaN or an infinity, with a warning and never an exception.\<close>

definition float64_truediv :: "real option \<Rightarrow> real option \<Rightarrow> float64" where
  "float64_truediv a b =
     (case (a, b) of
        (Some x, Some y) \<Rightarrow>
          (if y \<noteq> 0 then Finite (fl (x / y))
           else if x = 0 then nan
           else if x > 0 then inf else neg_inf)
      | _ \<Rightarrow> nan)"

text \<open>\<^verbatim>\<open>cov_matrix[0, 1]\<close> pairs the capital returns with the market returns,
  \<^verbatim>\<open>cov_matrix[1, 1]\<close> the market returns with themselves. \<^verbatim>\<open>nancorr\<close> fills the matrix
  from its lower triangle, so in its recurrence the market column comes first.\<close>

definition calc_beta :: "annotated_row list \<Rightarrow> BacktestDataStorage \<Rightarrow> BacktestDataStorage" where
  "calc_beta d storage =
     (let notna_all = (\<forall>r \<in> set d. Capital_Returns r \<noteq> None \<and> Market_Returns r \<noteq> None);
          capital = map fst (complete_pairs (map (\<lambda>r. (Capital_Returns r, Market_Returns r)) d));
          market = map snd (complete_pairs (map (\<lambda>r. (Capital_Returns r, Market_Returns r)) d));
          covariance = (if notna_all then numpy_cov capital market
                        else nancorr_cov (map (\<lambda>r. (Market_Returns r, Capital_Returns r)) d));
          variance = (if notna_all then numpy_cov market market
                      else nancorr_cov (map (\<lambda>r. (Market_Returns r, Market_Returns r)) d))
      in storage\<lparr>beta := Some (float64_truediv covariance variance)\<rparr>)"

subsection \<open>Regime averages\<close>

text \<open>The mean of a group as \<^verbatim>\<open>groupby(...).mean()\<close> computes it: the values that are
  not NaN are added by Kahan's compensated summation, in row order, and the sum is
  divided by their number; a group without values has the mean NaN.\<close>

definition kahan_step :: "real \<times> real \<Rightarrow> real \<Rightarrow> real \<times> real" where
  "kahan_step s val =
     (case s of (sumx, compensation) \<Rightarrow>
        (let y = fl (val - compensation);
             t = fl (sumx + y)
         in (t, fl (fl (t - sumx) - y))))"

definition group_mean :: "real list \<Rightarrow> real option" where
  "group_mean xs =
     (if xs = [] then None
      else Some (fl (fst (foldl kahan_step (0, 0) xs) / real (length xs))))"

text \<open>\<^verbatim>\<open>round(x, 2)\<close> of a Python float: the multiple of 1/100 nearest to the exact value
  of the double \<open>x\<close> (a tie going to the even multiple), as a double.\<close>

definition py_round2 :: "real \<Rightarrow> real" where
  "py_round2 x = fl (of_int (round_half_even (x * 100)) / 100)"

text \<open>The values of the group \<open>k\<close>, and the keys of the groups. On a column of strings the
  keys are the labels that occur; rows whose key is NaN belong to no group.\<close>

definition group_values :: "('k option \<times> real option) list \<Rightarrow> 'k \<Rightarrow> real list" where
  "group_values cells k =
     concat (map (\<lambda>(k', v). case v of Some x \<Rightarrow> if k' = Some k then [x] else [] | None \<Rightarrow> []) cells)"

definition observed_keys :: "('k option \<times> real option) list \<Rightarrow> 'k list" where
  "observed_keys cells =
     remdups (concat (map (\<lambda>(k', v). case k' of Some k \<Rightarrow> [k] | None \<Rightarrow> []) cells))"

definition groupby_mean :: "'k list \<Rightarrow> ('k option \<times> real option) list \<Rightarrow> ('k \<times> real option) list" where
  "groupby_mean keys cells = map (\<lambda>k. (k, group_mean (group_values cells k))) keys"

text \<open>The loop that builds \<^verbatim>\<open>updated_avg_returns\<close>; a NaN average stays NaN.\<close>

definition updated_avg_returns :: "('k \<times> real option) list \<Rightarrow> ('k \<rightharpoonup> real option)" where
  "updated_avg_returns avg_returns_dict =
     map_of (map (\<lambda>(regime, avg_return).
                    (regime, map_option (\<lambda>a. py_round2 (fl (a * 100))) avg_return))
                 avg_returns_dict)"

definition calc_market_regime_avg_returns :: "BacktestDataStorage \<Rightarrow> exn + BacktestDataStorage" where
  "calc_market_regime_avg_returns storage =
     (case storage_data storage of
        None \<Rightarrow> Inl AttributeError
      | Some d \<Rightarrow>
          (let cells = map (\<lambda>r. (Market_Regime r, Capital_Returns r)) d;
               avg_returns_dict = groupby_mean (observed_keys cells) cells
           in Inr (storage\<lparr>market_regime_avg_returns := Some (updated_avg_returns avg_returns_dict)\<rparr>)))"

text \<open>\<^verbatim>\<open>pd.qcut\<close> makes \<^verbatim>\<open>Volatility Regime\<close> a categorical column. Grouping by a
  categorical column keeps every category as a key (the default \<^verbatim>\<open>observed=False\<close> of
  pandas 1 and 2), also one that no row carries: its mean is NaN.\<close>

definition calc_volatility_regime_avg_returns :: "BacktestDataStorage \<Rightarrow> exn + BacktestDataStorage" where
  "calc_volatility_regime_avg_returns storage =
     (case storage_data storage of
        None \<Rightarrow> Inl AttributeError
      | Some d \<Rightarrow>
          (let cells = map (\<lambda>r. (Volatility_Regime r, Capital_Returns r)) d;
               avg_returns_dict = groupby_mean [low, medium, high] cells
           in Inr (storage\<lparr>volatility_regime_avg_returns := Some (updated_avg_returns avg_returns_dict)\<rparr>)))"

section \<open>data\_utils.py: define\_windows\<close>

text \<open>The label of the row at 0-based position \<open>i\<close> of \<open>n\<close> rows:
  \<^verbatim>\<open>np.where((np.arange(n) + 1) / n <= 0.7, "Backtest", "Walk Forward")\<close>.\<close>

definition Window :: "nat \<Rightarrow> nat \<Rightarrow> string" where
  "Window n i = (if (real i + 1) / real n \<le> 7 / 10 then ''Backtest'' else ''Walk Forward'')"

definition define_windows :: "'a list \<Rightarrow> 'a list \<times> 'a list" where
  "define_windows raw_data =
     (let n = length raw_data;
          labelled = zip raw_data (map (Window n) [0..<n]);
          backtest_data = map fst (filter (\<lambda>(r, w). w = ''Backtest'') labelled);
          walkforward_data = map fst (filter (\<lambda>(r, w). w = ''Walk Forward'') labelled)
      in (backtest_data, walkforward_data))"

section \<open>binance\_data\_pipeline.py\<close>

text \<open>The two exception classes of the client library that the pipeline catches. A
  \<^verbatim>\<open>BinanceAPIException\<close> carries the provider's numeric \<^verbatim>\<open>code\<close> and a message; a
  \<^verbatim>\<open>BinanceRequestException\<close> carries a message only, so reading its \<^verbatim>\<open>code\<close> raises
  \<^verbatim>\<open>AttributeError\<close>.\<close>

datatype provider_error =
    BinanceAPIException int string
  | BinanceRequestException string

definition transient_error :: "provider_error \<Rightarrow> exn + bool" where
  "transient_error error =
     (case error of
        BinanceRequestException m \<Rightarrow> Inl AttributeError
      | BinanceAPIException code m \<Rightarrow>
          (if code = -1000 \<or> code = -1001 \<or> code = -1008 \<or> code = -1015 \<or> code = -1021
           then Inr True else Inr False))"

text \<open>What \<^verbatim>\<open>import_historical_data\<close> can raise: the provider's error again, the
  \<^verbatim>\<open>Exception("Max retries reached ...")\<close> of the loop's \<^verbatim>\<open>else\<close> branch, or what the
  classification itself raised.\<close>

datatype import_exn =
    Reraised provider_error
  | Max_retries_reached
  | Classification exn

text \<open>The state of one call: the requests sent so far and the delays slept, in order.\<close>

record 'r fetch =
  outcome :: "import_exn + 'r"
  requests :: nat
  slept :: "nat list"

text \<open>The retry loop over the attempts still to make. \<open>client attempt\<close> is the answer of
  \<^verbatim>\<open>get_historical_klines\<close> to the request of that attempt.\<close>

fun retry_loop ::
  "(nat \<Rightarrow> provider_error + 'k list) \<Rightarrow> nat list \<Rightarrow> nat \<Rightarrow> nat \<Rightarrow> nat list \<Rightarrow> 'k list fetch" where
  "retry_loop client [] delay sent sleeps =
     \<lparr>outcome = Inl Max_retries_reached, requests = sent, slept = sleeps\<rparr>"
| "retry_loop client (attempt # later) delay sent sleeps =
     (case client attempt of
        Inr klines \<Rightarrow> \<lparr>outcome = Inr klines, requests = sent + 1, slept = sleeps\<rparr>
      | Inl e \<Rightarrow>
          (case transient_error e of
             Inl x \<Rightarrow> \<lparr>outcome = Inl (Classification x), requests = sent + 1, slept = sleeps\<rparr>
           | Inr True \<Rightarrow> retry_loop client later (delay * 2) (sent + 1) (sleeps @ [delay])
           | Inr False \<Rightarrow> \<lparr>outcome = Inl (Reraised e), requests = sent + 1, slept = sleeps\<rparr>))"

text \<open>\<open>to_row\<close> stands for the conversion of one kline into a row of the frame; no klines
  give the empty frame.\<close>

definition import_historical_data ::
  "(nat \<Rightarrow> provider_error + 'k list) \<Rightarrow> ('k \<Rightarrow> 'r) \<Rightarrow> 'r list fetch" where
  "import_historical_data client to_row =
     (let max_retries = 3; delay = 1;
          f = retry_loop client [1..<max_retries + 1] delay 0 []
      in case outcome f of
           Inl e \<Rightarrow> \<lparr>outcome = Inl e, requests = requests f, slept = slept f\<rparr>
         | Inr klines \<Rightarrow>
             \<lparr>outcome = Inr (if klines = [] then [] else map to_row klines),
              requests = requests f, slept = slept f\<rparr>)"

section \<open>Invariant and example data\<close>




definition example_bar :: "int \<Rightarrow> real \<Rightarrow> unit bar" where
  "example_bar t p = \<lparr>name = t + 1, Open_time = t, Open = p, cols = ()\<rparr>"

definition example_frame :: "unit bar list \<Rightarrow> unit frame" where
  "example_frame bs =
     \<lparr>rows = map (\<lambda>b. \<lparr>bar = b, Capital_Log = None, Trade_Log = []\<rparr>) bs, has_Trade_Log = False\<rparr>"

text \<open>A detector that signals an entry on every pair of bars, and an exit as well.\<close>

definition eager_detector :: "unit SignalDetector" where
  "eager_detector =
     \<lparr>detect_entry = (\<lambda>previous_row current_row. Inr (Some ''Entry'')),
      detect_exit = (\<lambda>previous_row current_row. Inr True)\<rparr>"

text \<open>The algorithm of the end-to-end scenario after its entry at price 100: initial
  capital 10000, fee 0.002, slippage 0.001, position size 0.1, maximal loss 0.05.\<close>

definition example_in_trade :: "unit Algorithm" where
  "example_in_trade =
     \<lparr>capital_manager = \<lparr>total_capital = 9997, liquid_capital = 9000, fee = 2 / 1000, slippage = 1 / 1000\<rparr>,
      risk_manager = \<lparr>position_size = 1 / 10, max_loss_pct = 5 / 100\<rparr>,
      current_trade = Some \<lparr>time = 10, entry_capital = 997, entry_price = 100\<rparr>,
      data = example_frame [example_bar 0 95, example_bar 10 100, example_bar 20 90]\<rparr>"

lemmas example_defs = example_bar_def example_frame_def eager_detector_def example_in_trade_def

text \<open>The algorithm as constructed on the bars \<open>bs\<close> with the scenario's parameters.\<close>

definition example_constructed :: "unit bar list \<Rightarrow> unit Algorithm" where
  "example_constructed bs =
     \<lparr>capital_manager = \<lparr>total_capital = 10000, liquid_capital = 10000, fee = 2 / 1000, slippage = 1 / 1000\<rparr>,
      risk_manager = \<lparr>position_size = 1 / 10, max_loss_pct = 5 / 100\<rparr>,
      current_trade = None,
      data = set_Capital_Log (name (hd bs)) 10000 (example_frame bs)\<rparr>"

text \<open>Two series in which the eager detector enters at a bar whose open price is zero:
  at the second bar, and at the fourth.\<close>

definition zero_entry_bars :: "unit bar list" where
  "zero_entry_bars = [example_bar 0 95, example_bar 10 0, example_bar 20 90]"

definition late_zero_entry_bars :: "unit bar list" where
  "late_zero_entry_bars =
     [example_bar 0 95, example_bar 10 100, example_bar 20 101, example_bar 30 0, example_bar 40 90]"


lemmas run_defs = run_backtest_def on_new_row_def log_capital_def set_Capital_Log_def
  execute_entry_def execute_exit_def compute_current_loss_def truediv_def log_trade_def Let_def

text \<open>The storage object as its constructor leaves it.\<close>

definition BacktestDataStorage_init :: BacktestDataStorage where
  "BacktestDataStorage_init =
     \<lparr>storage_data = None, beta = None, volatility_regime_avg_returns = None,
      market_regime_avg_returns = None\<rparr>"

text \<open>A window as the return columns are built: the first row has no returns, the market
  returns of the other rows are all the double 0.02.\<close>

definition example_constant_market :: "annotated_row list" where
  "example_constant_market =
     [\<lparr>Capital_Returns = None, Market_Returns = None,
       Market_Regime = Some ''bull'', Volatility_Regime = None\<rparr>,
      \<lparr>Capital_Returns = Some (fl (1 / 100)), Market_Returns = Some (fl (2 / 100)),
       Market_Regime = Some ''bull'', Volatility_Regime = Some low\<rparr>,
      \<lparr>Capital_Returns = Some (fl (- 1 / 100)), Market_Returns = Some (fl (2 / 100)),
       Market_Regime = Some ''bull'', Volatility_Regime = Some low\<rparr>,
      \<lparr>Capital_Returns = Some (fl (3 / 100)), Market_Returns = Some (fl (2 / 100)),
       Market_Regime = Some ''bull'', Volatility_Regime = Some high\<rparr>]"

text \<open>A window without a NaN cell whose market returns are all the double 0.1; the
  capital returns are the doubles 0.01, -0.02 and 0.03.\<close>

definition example_constant_market_notna :: "annotated_row list" where
  "example_constant_market_notna =
     [\<lparr>Capital_Returns = Some (fl (1 / 100)), Market_Returns = Some (fl (1 / 10)),
       Market_Regime = Some ''bull'', Volatility_Regime = Some low\<rparr>,
      \<lparr>Capital_Returns = Some (fl (- 2 / 100)), Market_Returns = Some (fl (1 / 10)),
       Market_Regime = Some ''bull'', Volatility_Regime = Some medium\<rparr>,
      \<lparr>Capital_Returns = Some (fl (3 / 100)), Market_Returns = Some (fl (1 / 10)),
       Market_Regime = Some ''bull'', Volatility_Regime = Some high\<rparr>]"

text \<open>The window of the regime aggregation scenario: two bull bars with the strategy
  returns 0.01 and 0.02, two bear bars with -0.01 and -0.02 (the doubles of these
  literals). No bar is of medium volatility.\<close>

definition example_regimes :: "annotated_row list" where
  "example_regimes =
     [\<lparr>Capital_Returns = Some (fl (1 / 100)), Market_Returns = Some (fl (1 / 100)),
       Market_Regime = Some ''bull'', Volatility_Regime = Some low\<rparr>,
      \<lparr>Capital_Returns = Some (fl (2 / 100)), Market_Returns = Some (fl (3 / 100)),
       Market_Regime = Some ''bull'', Volatility_Regime = Some high\<rparr>,
      \<lparr>Capital_Returns = Some (fl (- 1 / 100)), Market_Returns = Some (fl (- 2 / 100)),
       Market_Regime = Some ''bear'', Volatility_Regime = Some low\<rparr>,
      \<lparr>Capital_Returns = Some (fl (- 2 / 100)), Market_Returns = Some (fl (- 1 / 100)),
       Market_Regime = Some ''bear'', Volatility_Regime = Some high\<rparr>]"

text \<open>A window of one bull bar whose strategy return is the double 0.02675: times 100
  it lies just below the decimal tie 2.675.\<close>

definition example_near_tie :: "annotated_row list" where
  "example_near_tie =
     [\<lparr>Capital_Returns = Some (fl (2675 / 100000)), Market_Returns = None,
       Market_Regime = Some ''bull'', Volatility_Regime = None\<rparr>]"

text \<open>The returns that are not NaN, of the rows that carry a label.\<close>

definition returns_of :: "(annotated_row \<Rightarrow> 'k option) \<Rightarrow> annotated_row list \<Rightarrow> 'k \<Rightarrow> real list" where
  "returns_of regime d label =
     concat (map (\<lambda>r. case Capital_Returns r of Some x \<Rightarrow> [x] | None \<Rightarrow> [])
                 (filter (\<lambda>r. regime r = Some label) d))"

lemmas float64_eval = fl_def binade_def binade_up.simps binade_down.simps pow2_def
  round_half_even_def Let_def

text \<open>A client that answers the first two requests with a rate-limit error (code -1015)
  and the third with an unknown-symbol error (code -1121).\<close>

definition example_client :: "nat \<Rightarrow> provider_error + nat list" where
  "example_client attempt =
     (if attempt < 3 then Inl (BinanceAPIException (-1015) ''Too many new orders.'')
      else Inl (BinanceAPIException (-1121) ''Invalid symbol.''))"

section \<open>Properties of the trade simulation\<close>

lemma truediv_nonzero: "b \<noteq> 0 \<Longrightarrow> truediv a b = Inr (a / b)"
  by (simp add: truediv_def)

lemma log_trade_rows:
  "rows (log_trade tr d) =
     map (\<lambda>r. r\<lparr>Trade_Log := (if has_Trade_Log d then Trade_Log r else [])
                               @ (if Open_time (bar r) = trade_time tr then [tr] else [])\<rparr>) (rows d)"
  by (simp add: log_trade_def Let_def)

lemma set_Capital_Log_rows:
  "rows (set_Capital_Log l v d)
     = map (\<lambda>r. if name (bar r) = l then r\<lparr>Capital_Log := Some v\<rparr> else r) (rows d)"
  by (simp add: set_Capital_Log_def)


lemma example_constructed_init:
  "Algorithm_init (example_frame (b # bs)) 10000 (2 / 1000) (1 / 1000) (1 / 10) (5 / 100)
     = Inr (example_constructed (b # bs))"
  by (simp add: Algorithm_init_def CapitalManagement_init_def example_constructed_def
                example_frame_def set_Capital_Log_def Let_def comp_def)




lemma on_new_row_Capital_Log:
  "map Capital_Log (rows (data (snd (on_new_row sd alg previous_row current_row))))
     = map Capital_Log (rows (data (log_capital alg current_row)))"
  by (auto simp add: on_new_row_def execute_entry_def execute_exit_def Let_def log_trade_rows comp_def
           split: sum.splits option.splits prod.splits)

lemma on_new_row_bars:
  "map bar (rows (data (snd (on_new_row sd alg previous_row current_row))))
     = map bar (rows (data alg))"
  by (auto simp add: on_new_row_def execute_entry_def execute_exit_def Let_def log_trade_rows comp_def
                     log_capital_def set_Capital_Log_rows
           split: sum.splits option.splits prod.splits)




text \<open>
  \<^bold>\<open>C2\<close> (postcondition of \<^verbatim>\<open>execute_entry\<close>). With liquid capital \<open>L\<close> before the
  call, the call leaves the liquid capital \<open>L - L * position_size\<close>, builds a trade whose
  entry capital is \<open>(L * position_size) * (1 - fee - slippage)\<close>, whose time is the bar's
  open time and whose entry price is the bar's open, sets the total capital to the new
  liquid capital plus that entry capital, appends the trade to the trade log of every row
  whose open time is the bar's (creating the column when the frame has none), and returns
  the trade. Fee, slippage, the risk manager and \<open>current_trade\<close> are left as they were.
\<close>

theorem execute_entry_postcondition:
  "(let L = liquid_capital (capital_manager alg);
        ps = position_size (risk_manager alg);
        f = fee (capital_manager alg);
        s = slippage (capital_manager alg);
        tr = fst (execute_entry alg current_row);
        alg' = snd (execute_entry alg current_row)
    in liquid_capital (capital_manager alg') = L - L * ps
     \<and> entry_capital tr = (L * ps) * (1 - f - s)
     \<and> total_capital (capital_manager alg') = liquid_capital (capital_manager alg') + entry_capital tr
     \<and> time tr = Open_time current_row
     \<and> entry_price tr = Open current_row
     \<and> data alg' = log_trade (entry tr) (data alg)
     \<and> rows (data alg') =
          map (\<lambda>r. r\<lparr>Trade_Log := (if has_Trade_Log (data alg) then Trade_Log r else [])
                       @ (if Open_time (bar r) = Open_time current_row then [entry tr] else [])\<rparr>)
              (rows (data alg))
     \<and> fee (capital_manager alg') = f \<and> slippage (capital_manager alg') = s
     \<and> risk_manager alg' = risk_manager alg
     \<and> current_trade alg' = current_trade alg)"
  by (simp add: execute_entry_def Let_def log_trade_rows)

text \<open>
  \<^bold>\<open>C3\<close> (postcondition of \<^verbatim>\<open>execute_exit\<close>). For an open trade, a stop-limit exit
  realizes \<open>entry_capital * (1 - max_loss_pct) * (1 - fee - slippage)\<close>, whatever the open
  price of the current bar; a signal exit realizes
  \<open>entry_capital * (open / entry_price) * (1 - fee - slippage)\<close>, provided the entry price
  is not zero. In both cases the \<^verbatim>\<open>exit_stop_limit\<close> or \<^verbatim>\<open>exit\<close> trade is appended to
  the trade log of every row whose open time is the current bar's, the realized capital
  is added to the liquid capital, and the total capital is set to the liquid capital.
\<close>

theorem execute_exit_postcondition:
  assumes "stop_limit \<or> entry_price tr \<noteq> 0"
  shows "\<exists>alg'. execute_exit alg tr current_row stop_limit = Inr alg' \<and>
     (let cm = capital_manager alg;
          realized = (if stop_limit
                      then entry_capital tr * (1 - max_loss_pct (risk_manager alg)) * (1 - fee cm - slippage cm)
                      else entry_capital tr * (Open current_row / entry_price tr) * (1 - fee cm - slippage cm));
          logged = (if stop_limit then exit_stop_limit (Open_time current_row) realized
                    else exit (Open_time current_row) (Open current_row) realized)
      in liquid_capital (capital_manager alg') = liquid_capital cm + realized
       \<and> total_capital (capital_manager alg') = liquid_capital (capital_manager alg')
       \<and> data alg' = log_trade logged (data alg)
       \<and> rows (data alg') =
            map (\<lambda>r. r\<lparr>Trade_Log := (if has_Trade_Log (data alg) then Trade_Log r else [])
                         @ (if Open_time (bar r) = Open_time current_row then [logged] else [])\<rparr>)
                (rows (data alg))
       \<and> (stop_limit \<longrightarrow> (\<forall>p. execute_exit alg tr (current_row\<lparr>Open := p\<rparr>) True
                                = execute_exit alg tr current_row True)))"
  using assms
  by (cases stop_limit) (auto simp add: execute_exit_def Let_def log_trade_rows truediv_def algebra_simps)

theorem execute_exit_postcondition_witness:
  "\<exists>alg'. execute_exit example_in_trade \<lparr>time = 10, entry_capital = 997, entry_price = 100\<rparr>
             (example_bar 20 90) True = Inr alg'
         \<and> liquid_capital (capital_manager alg') = 9000 + 997 * (95 / 100) * (997 / 1000)
         \<and> total_capital (capital_manager alg') = 9000 + 997 * (95 / 100) * (997 / 1000)"
  using execute_exit_postcondition
          [of True "\<lparr>time = 10, entry_capital = 997, entry_price = 100\<rparr>" example_in_trade "example_bar 20 90"]
  by (auto simp add: Let_def example_in_trade_def)

text \<open>
  \<^bold>\<open>C4\<close> (stop-limit trigger and priority). In a transition taken with an open trade
  whose entry price is not zero, the unrealized loss is
  \<open>entry_capital * (1 - open / entry_price)\<close>. Whenever it is at least
  \<open>max_loss_pct * entry_capital\<close>, the transition is the stop-limit exit: it returns, logs
  the \<^verbatim>\<open>exit_stop_limit\<close> trade and clears the open trade, whatever the signal detector
  would answer (the detector \<open>sd\<close> is arbitrary and is not consulted). Any transition with
  an open trade logs at most one trade.
\<close>

theorem stop_limit_priority:
  assumes "current_trade alg = Some tr" and "entry_price tr \<noteq> 0"
  shows "compute_current_loss tr current_row
           = Inr (entry_capital tr * (1 - Open current_row / entry_price tr))
       \<and> (entry_capital tr * (1 - Open current_row / entry_price tr)
             \<ge> max_loss_pct (risk_manager alg) * entry_capital tr
           \<longrightarrow> (\<exists>alg2. execute_exit (log_capital alg current_row) tr current_row True = Inr alg2
                     \<and> on_new_row sd alg previous_row current_row
                         = (None, alg2\<lparr>current_trade := None\<rparr>)
                     \<and> data alg2 = log_trade
                          (exit_stop_limit (Open_time current_row)
                             ((1 - max_loss_pct (risk_manager alg)) * entry_capital tr
                              * (1 - (fee (capital_manager alg) + slippage (capital_manager alg)))))
                          (data (log_capital alg current_row))))
       \<and> (\<exists>events. length events \<le> 1
             \<and> data (snd (on_new_row sd alg previous_row current_row))
                 = foldr log_trade events (data (log_capital alg current_row)))"
proof (intro conjI impI)
  show loss: "compute_current_loss tr current_row
           = Inr (entry_capital tr * (1 - Open current_row / entry_price tr))"
    using assms(2) by (simp add: compute_current_loss_def truediv_def Let_def algebra_simps)
  show "\<exists>alg2. execute_exit (log_capital alg current_row) tr current_row True = Inr alg2
                     \<and> on_new_row sd alg previous_row current_row
                         = (None, alg2\<lparr>current_trade := None\<rparr>)
                     \<and> data alg2 = log_trade
                          (exit_stop_limit (Open_time current_row)
                             ((1 - max_loss_pct (risk_manager alg)) * entry_capital tr
                              * (1 - (fee (capital_manager alg) + slippage (capital_manager alg)))))
                          (data (log_capital alg current_row))"
    if "entry_capital tr * (1 - Open current_row / entry_price tr)
             \<ge> max_loss_pct (risk_manager alg) * entry_capital tr"
    using that assms(1) loss
    by (simp add: on_new_row_def execute_exit_def log_capital_def Let_def)
  show "\<exists>events. length events \<le> 1
             \<and> data (snd (on_new_row sd alg previous_row current_row))
                 = foldr log_trade events (data (log_capital alg current_row))"
  proof (cases "fst (on_new_row sd alg previous_row current_row) = None
                \<and> current_trade (snd (on_new_row sd alg previous_row current_row)) = None")
    case True
    let ?ml = "max_loss_pct (risk_manager alg)"
    let ?fs = "1 - (fee (capital_manager alg) + slippage (capital_manager alg))"
    let ?ev = "if entry_capital tr * (1 - Open current_row / entry_price tr) \<ge> ?ml * entry_capital tr
               then exit_stop_limit (Open_time current_row) ((1 - ?ml) * entry_capital tr * ?fs)
               else exit (Open_time current_row) (Open current_row)
                      (Open current_row / entry_price tr * entry_capital tr * ?fs)"
    have "data (snd (on_new_row sd alg previous_row current_row))
            = foldr log_trade [?ev] (data (log_capital alg current_row))"
      using True assms loss
      by (auto simp add: on_new_row_def execute_exit_def log_capital_def truediv_def Let_def
               split: sum.splits if_splits)
    then show ?thesis by (intro exI[of _ "[?ev]"]) simp
  next
    case False
    have "data (snd (on_new_row sd alg previous_row current_row))
            = foldr log_trade [] (data (log_capital alg current_row))"
      using False assms loss
      by (auto simp add: on_new_row_def execute_exit_def log_capital_def truediv_def Let_def
               split: sum.splits if_splits)
    then show ?thesis by (intro exI[of _ "[]"]) simp
  qed
qed

theorem stop_limit_priority_witness:
  "compute_current_loss \<lparr>time = 10, entry_capital = 997, entry_price = 100\<rparr> (example_bar 20 90)
     = Inr (997 / 10)
   \<and> fst (on_new_row eager_detector example_in_trade (example_bar 10 100) (example_bar 20 90)) = None
   \<and> current_trade (snd (on_new_row eager_detector example_in_trade (example_bar 10 100) (example_bar 20 90)))
       = None
   \<and> data (snd (on_new_row eager_detector example_in_trade (example_bar 10 100) (example_bar 20 90)))
       = log_trade (exit_stop_limit 20 (997 * (95 / 100) * (997 / 1000)))
           (data (log_capital example_in_trade (example_bar 20 90)))"
  using stop_limit_priority
          [of example_in_trade "\<lparr>time = 10, entry_capital = 997, entry_price = 100\<rparr>"
              "example_bar 20 90" eager_detector "example_bar 10 100"]
  by (auto simp add: example_in_trade_def example_bar_def)

text \<open>
  \<^bold>\<open>C5\<close> (capital-log timing). After a call of \<^verbatim>\<open>on_new_row\<close>, whether it returned or
  raised, the capital-log cell of every row carrying the current bar's index label holds
  the total capital the algorithm had when the call began, before any entry, exit or
  mark-to-market of that call; the index itself is unchanged. And the constructor of
  \<^verbatim>\<open>CapitalManagement\<close>, when it returns, has set the capital-log cell of the first row
  to the initial capital.
\<close>

theorem capital_log_timing:
  "(\<forall>r \<in> set (rows (data (snd (on_new_row sd alg previous_row current_row)))).
       name (bar r) = name current_row
       \<longrightarrow> Capital_Log r = Some (total_capital (capital_manager alg)))
   \<and> map (\<lambda>r. name (bar r)) (rows (data (snd (on_new_row sd alg previous_row current_row))))
       = map (\<lambda>r. name (bar r)) (rows (data alg))
   \<and> (CapitalManagement_init initial_capital fee0 slippage0 d = Inr (cm, d')
       \<longrightarrow> rows d' \<noteq> []
         \<and> Capital_Log (hd (rows d')) = Some initial_capital
         \<and> total_capital cm = initial_capital)"
proof (intro conjI ballI impI)
  fix r
  assume r: "r \<in> set (rows (data (snd (on_new_row sd alg previous_row current_row))))"
    and n: "name (bar r) = name current_row"
  let ?after = "rows (data (snd (on_new_row sd alg previous_row current_row)))"
  let ?logged = "rows (data (log_capital alg current_row))"
  have b: "map bar ?after = map bar ?logged"
    by (simp add: on_new_row_bars log_capital_def set_Capital_Log_rows comp_def if_distrib)
  have "(bar r, Capital_Log r) \<in> set (zip (map bar ?after) (map Capital_Log ?after))"
    using r by (auto simp add: zip_map_map zip_same_conv_map)
  then have "(bar r, Capital_Log r) \<in> set (zip (map bar ?logged) (map Capital_Log ?logged))"
    by (simp only: b on_new_row_Capital_Log)
  then obtain r0 where "r0 \<in> set ?logged" "bar r0 = bar r" "Capital_Log r0 = Capital_Log r"
    by (auto simp add: zip_map_map zip_same_conv_map)
  then show "Capital_Log r = Some (total_capital (capital_manager alg))"
    using n by (auto simp add: log_capital_def set_Capital_Log_rows split: if_splits)
next
  show "map (\<lambda>r. name (bar r)) (rows (data (snd (on_new_row sd alg previous_row current_row))))
       = map (\<lambda>r. name (bar r)) (rows (data alg))"
    using arg_cong[OF on_new_row_bars, of "map name" sd alg previous_row current_row]
    by (simp add: comp_def)
next
  assume "CapitalManagement_init initial_capital fee0 slippage0 d = Inr (cm, d')"
  then show "rows d' \<noteq> []" "Capital_Log (hd (rows d')) = Some initial_capital"
     "total_capital cm = initial_capital"
    by (auto simp add: CapitalManagement_init_def set_Capital_Log_rows Let_def split: list.splits)
qed

theorem capital_log_timing_witness:
  "Capital_Log (rows (data (snd (on_new_row eager_detector example_in_trade
                                   (example_bar 10 100) (example_bar 20 90)))) ! 2) = Some 9997
   \<and> (\<exists>cm d'. CapitalManagement_init 10000 (2 / 1000) (1 / 1000)
                  (example_frame [example_bar 0 95, example_bar 10 100, example_bar 20 90]) = Inr (cm, d')
              \<and> Capital_Log (hd (rows d')) = Some 10000)"
proof -
  let ?after = "rows (data (snd (on_new_row eager_detector example_in_trade
                                   (example_bar 10 100) (example_bar 20 90))))"
  let ?d = "example_frame [example_bar 0 95, example_bar 10 100, example_bar 20 90]"
  obtain cm d' where init: "CapitalManagement_init 10000 (2 / 1000) (1 / 1000) ?d = Inr (cm, d')"
    by (simp add: CapitalManagement_init_def example_defs Let_def)
  note timing = capital_log_timing
                  [of eager_detector example_in_trade "example_bar 10 100" "example_bar 20 90"
                      10000 "2 / 1000" "1 / 1000" ?d cm d']
  have names: "map (\<lambda>r. name (bar r)) ?after = [1, 11, 21]"
    using timing by (simp add: example_defs)
  have len: "length ?after = 3"
    using arg_cong[OF names, of length] by simp
  have "name (bar (?after ! 2)) = 21"
    using arg_cong[OF names, of "\<lambda>xs. xs ! 2"] len by simp
  moreover have "?after ! 2 \<in> set ?after"
    using len by simp
  ultimately have "Capital_Log (?after ! 2) = Some (total_capital (capital_manager example_in_trade))"
    using timing by (simp add: example_bar_def)
  moreover have "Capital_Log (hd (rows d')) = Some 10000"
    using timing init by simp
  ultimately show ?thesis
    using init by (auto simp add: example_in_trade_def)
qed

section \<open>Properties of the runner\<close>

lemma run_backtest_loop_append:
  "run_backtest_loop sd alg previous_row (before @ remaining) =
     (case run_backtest_loop sd alg previous_row before of
        (Some e, alg') \<Rightarrow> (Some e, alg')
      | (None, alg') \<Rightarrow> run_backtest_loop sd alg' (last (previous_row # before)) remaining)"
  by (induction before arbitrary: alg previous_row) (auto split: prod.splits option.splits)

text \<open>
  \<^bold>\<open>C7\<close> (runner failure), as the code has it. When the bars before some bar are
  processed without an exception and the transition of that bar raises \<open>e\<close>, the run
  stops there: \<^verbatim>\<open>run_backtest\<close> raises a \<^verbatim>\<open>ValueError\<close> whose message is
  \<^verbatim>\<open>Error processing new row: \<close> followed by \<open>str(e)\<close>, the later bars are not processed,
  nothing is written to \<^verbatim>\<open>data_log.pkl\<close>, and the algorithm object stays as the failing
  call left it. The message is made from the cause alone.
\<close>

theorem run_backtest_failure:
  assumes "map bar (rows (data alg)) = first_row # before @ row # later"
    and "run_backtest_loop sd alg first_row before = (None, alg1)"
    and "on_new_row sd alg1 (last (first_row # before)) row = (Some e, alg2)"
  shows "run_backtest sd alg =
           \<lparr>raised = Some (ValueError (''Error processing new row: '' @ exn_str e)),
            algorithm = alg2, data_log_pkl = None\<rparr>"
  using assms by (simp add: run_backtest_def run_backtest_loop_append)

theorem run_backtest_failure_witness:
  "Algorithm_init (example_frame zero_entry_bars) 10000 (2 / 1000) (1 / 1000) (1 / 10) (5 / 100)
     = Inr (example_constructed zero_entry_bars)
   \<and> run_backtest eager_detector (example_constructed zero_entry_bars) =
       \<lparr>raised = Some (ValueError ''Error processing new row: float division by zero''),
        algorithm = snd (on_new_row eager_detector
                          (snd (run_backtest_loop eager_detector (example_constructed zero_entry_bars)
                                  (example_bar 0 95) [example_bar 10 0]))
                          (example_bar 10 0) (example_bar 20 90)),
        data_log_pkl = None\<rparr>"
proof -
  let ?alg = "example_constructed zero_entry_bars"
  let ?alg1 = "snd (run_backtest_loop eager_detector ?alg (example_bar 0 95) [example_bar 10 0])"
  let ?alg2 = "snd (on_new_row eager_detector ?alg1 (example_bar 10 0) (example_bar 20 90))"
  have rows: "map bar (rows (data ?alg)) = example_bar 0 95 # [example_bar 10 0] @ example_bar 20 90 # []"
    by (simp add: example_constructed_def zero_entry_bars_def example_frame_def set_Capital_Log_def comp_def)
  have "fst (run_backtest_loop eager_detector ?alg (example_bar 0 95) [example_bar 10 0]) = None"
    by (simp add: run_defs example_constructed_def eager_detector_def split: prod.splits)
  then have before: "run_backtest_loop eager_detector ?alg (example_bar 0 95) [example_bar 10 0] = (None, ?alg1)"
    by (simp add: prod_eq_iff)
  have "fst (on_new_row eager_detector ?alg1 (example_bar 10 0) (example_bar 20 90)) = Some ZeroDivisionError"
    by (simp add: run_defs example_constructed_def eager_detector_def example_bar_def)
  then have failing: "on_new_row eager_detector ?alg1 (last (example_bar 0 95 # [example_bar 10 0])) (example_bar 20 90)
                = (Some ZeroDivisionError, ?alg2)"
    by (simp add: prod_eq_iff)
  show ?thesis
    using run_backtest_failure[OF rows before failing] example_constructed_init[of "example_bar 0 95"]
    by (simp add: zero_entry_bars_def)
qed

text \<open>
  The reported error does not identify the bar. Both runs below fail with the same
  \<^verbatim>\<open>ValueError\<close>; in the first the bars before the third are processed and the third
  (index label 21, open time 20) fails, in the second the bars before the fifth are
  processed and the fifth (index label 41, open time 40) fails.
\<close>

theorem run_backtest_error_counterexample:
  "raised (run_backtest eager_detector (example_constructed zero_entry_bars))
     = Some (ValueError ''Error processing new row: float division by zero'')
   \<and> raised (run_backtest eager_detector (example_constructed late_zero_entry_bars))
     = Some (ValueError ''Error processing new row: float division by zero'')
   \<and> fst (run_backtest_loop eager_detector (example_constructed zero_entry_bars)
            (zero_entry_bars ! 0) [zero_entry_bars ! 1]) = None
   \<and> fst (run_backtest_loop eager_detector (example_constructed late_zero_entry_bars)
            (late_zero_entry_bars ! 0)
            [late_zero_entry_bars ! 1, late_zero_entry_bars ! 2, late_zero_entry_bars ! 3]) = None
   \<and> length zero_entry_bars = 3 \<and> length late_zero_entry_bars = 5
   \<and> name (zero_entry_bars ! 2) = 21 \<and> name (late_zero_entry_bars ! 4) = 41
   \<and> Open_time (zero_entry_bars ! 2) = 20 \<and> Open_time (late_zero_entry_bars ! 4) = 40"
  by (simp add: run_defs example_constructed_def eager_detector_def example_bar_def example_frame_def
                zero_entry_bars_def late_zero_entry_bars_def)

section \<open>Properties of the window split\<close>

lemma Window_Backtest: "(Window n i = ''Backtest'') = ((real i + 1) / real n \<le> 7 / 10)"
  by (simp add: Window_def)

lemma Window_Walk: "(Window n i = ''Walk Forward'') = (\<not> (real i + 1) / real n \<le> 7 / 10)"
  by (simp add: Window_def)

lemma position_fraction:
  assumes "0 < n"
  shows "((real i + 1) / real n \<le> 7 / 10) = (i < nat \<lfloor>7 / 10 * real n\<rfloor>)"
proof -
  have "((real i + 1) / real n \<le> 7 / 10) = (real (i + 1) \<le> 7 / 10 * real n)"
    using assms by (simp add: field_simps)
  also have "\<dots> = (int (i + 1) \<le> \<lfloor>7 / 10 * real n\<rfloor>)"
    by (simp add: le_floor_iff)
  also have "\<dots> = (i < nat \<lfloor>7 / 10 * real n\<rfloor>)"
    by linarith
  finally show ?thesis .
qed

lemma Window_Backtest_less:
  "0 < n \<Longrightarrow> (Window n i = ''Backtest'') = (i < nat \<lfloor>7 / 10 * real n\<rfloor>)"
  by (simp only: Window_Backtest position_fraction)

lemma Window_Walk_not_less:
  "0 < n \<Longrightarrow> (Window n i = ''Walk Forward'') = (\<not> i < nat \<lfloor>7 / 10 * real n\<rfloor>)"
  by (simp only: Window_Walk position_fraction)

lemma filter_zip_upt_less:
  "k \<le> length xs \<Longrightarrow> map fst (filter (\<lambda>(r, i). i < k) (zip xs [0..<length xs])) = take k xs"
proof (induction xs arbitrary: k rule: rev_induct)
  case Nil
  then show ?case by simp
next
  case (snoc x xs)
  show ?case
  proof (cases "k \<le> length xs")
    case True
    then show ?thesis using snoc.IH[of k] by simp
  next
    case False
    with snoc.prems have k: "k = Suc (length xs)" by simp
    have "filter (\<lambda>(r, i). i < k) (zip xs [0..<length xs]) = zip xs [0..<length xs]"
      unfolding k by (rule filter_True) (auto simp: set_zip)
    then show ?thesis by (simp add: k)
  qed
qed

lemma filter_zip_upt_not_less:
  "k \<le> length xs \<Longrightarrow> map fst (filter (\<lambda>(r, i). \<not> i < k) (zip xs [0..<length xs])) = drop k xs"
proof (induction xs arbitrary: k rule: rev_induct)
  case Nil
  then show ?case by simp
next
  case (snoc x xs)
  show ?case
  proof (cases "k \<le> length xs")
    case True
    then show ?thesis using snoc.IH[of k] by simp
  next
    case False
    with snoc.prems have k: "k = Suc (length xs)" by simp
    have "filter (\<lambda>(r, i). \<not> i < k) (zip xs [0..<length xs]) = []"
      unfolding k by (auto simp: filter_empty_conv set_zip)
    then show ?thesis by (simp add: k)
  qed
qed

lemma floor_le_length: "nat \<lfloor>7 / 10 * real n\<rfloor> \<le> n"
proof -
  have "\<lfloor>7 / 10 * real n\<rfloor> \<le> \<lfloor>real n\<rfloor>" by (rule floor_mono) simp
  then show ?thesis by simp
qed

lemma define_windows_take_drop:
  "define_windows raw_data =
     (take (nat \<lfloor>7 / 10 * real (length raw_data)\<rfloor>) raw_data,
      drop (nat \<lfloor>7 / 10 * real (length raw_data)\<rfloor>) raw_data)"
proof (cases "raw_data = []")
  case True
  then show ?thesis by (simp add: define_windows_def)
next
  case False
  let ?n = "length raw_data"
  let ?k = "nat \<lfloor>7 / 10 * real ?n\<rfloor>"
  have n: "0 < ?n" using False by simp
  have z: "zip raw_data (map (Window ?n) [0..<?n])
             = map (\<lambda>(r, i). (r, Window ?n i)) (zip raw_data [0..<?n])"
    by (simp add: zip_map2)
  have bt: "filter (\<lambda>(r, w). w = ''Backtest'') (map (\<lambda>(r, i). (r, Window ?n i)) (zip raw_data [0..<?n]))
          = map (\<lambda>(r, i). (r, Window ?n i)) (filter (\<lambda>(r, i). i < ?k) (zip raw_data [0..<?n]))"
    by (simp add: filter_map comp_def case_prod_unfold Window_Backtest_less[OF n])
  have wf: "filter (\<lambda>(r, w). w = ''Walk Forward'') (map (\<lambda>(r, i). (r, Window ?n i)) (zip raw_data [0..<?n]))
          = map (\<lambda>(r, i). (r, Window ?n i)) (filter (\<lambda>(r, i). \<not> i < ?k) (zip raw_data [0..<?n]))"
    by (simp add: filter_map comp_def case_prod_unfold Window_Walk_not_less[OF n])
  have f: "map fst (map (\<lambda>(r, i). (r, Window ?n i)) ys) = map fst ys" for ys :: "('a \<times> nat) list"
    by (simp add: comp_def case_prod_unfold)
  show ?thesis
    unfolding define_windows_def Let_def z bt wf f
    using filter_zip_upt_less[OF floor_le_length, of raw_data]
          filter_zip_upt_not_less[OF floor_le_length, of raw_data]
    by simp
qed


lemma zip_nth_upt: "zip xs [0..<length xs] = map (\<lambda>i. (xs ! i, i)) [0..<length xs]"
  by (rule nth_equalityI) simp_all

lemma define_windows_positions:
  "define_windows raw_data =
     (map (\<lambda>i. raw_data ! i)
        (filter (\<lambda>i. (real i + 1) / real (length raw_data) \<le> 7 / 10) [0..<length raw_data]),
      map (\<lambda>i. raw_data ! i)
        (filter (\<lambda>i. \<not> (real i + 1) / real (length raw_data) \<le> 7 / 10) [0..<length raw_data]))"
proof -
  let ?n = "length raw_data"
  have z: "zip raw_data (map (Window ?n) [0..<?n])
             = map (\<lambda>i. (raw_data ! i, Window ?n i)) [0..<?n]"
    by (simp add: zip_map2 zip_nth_upt)
  show ?thesis
    unfolding define_windows_def Let_def z
    by (simp add: filter_map comp_def Window_Backtest Window_Walk del: Window_def)
qed

text \<open>
  \<^bold>\<open>C8\<close> (window split). For a series of \<open>n\<close> rows, \<^verbatim>\<open>define_windows\<close> returns a
  backtest part and a walk-forward part whose lengths add up to \<open>n\<close>, the backtest part
  having \<open>\<lfloor>0.7 n\<rfloor>\<close> rows; the two parts are the series cut in two, in order. A row is
  in the backtest part exactly when its 1-based position divided by \<open>n\<close> is at most 0.7,
  and in the walk-forward part otherwise. The comparison is made in real arithmetic.
\<close>

theorem define_windows_split:
  "(let n = length raw_data;
        backtest_data = fst (define_windows raw_data);
        walkforward_data = snd (define_windows raw_data)
    in length backtest_data + length walkforward_data = n
     \<and> length backtest_data = nat \<lfloor>7 / 10 * real n\<rfloor>
     \<and> backtest_data @ walkforward_data = raw_data
     \<and> backtest_data
         = map (\<lambda>i. raw_data ! i) (filter (\<lambda>i. (real i + 1) / real n \<le> 7 / 10) [0..<n])
     \<and> walkforward_data
         = map (\<lambda>i. raw_data ! i) (filter (\<lambda>i. \<not> (real i + 1) / real n \<le> 7 / 10) [0..<n]))"
proof -
  have k: "nat \<lfloor>7 / 10 * real (length raw_data)\<rfloor> \<le> length raw_data"
    by (rule floor_le_length)
  have "fst (define_windows raw_data) = take (nat \<lfloor>7 / 10 * real (length raw_data)\<rfloor>) raw_data"
       "snd (define_windows raw_data) = drop (nat \<lfloor>7 / 10 * real (length raw_data)\<rfloor>) raw_data"
    by (simp_all add: define_windows_take_drop)
  moreover have
    "fst (define_windows raw_data) = map (\<lambda>i. raw_data ! i)
        (filter (\<lambda>i. (real i + 1) / real (length raw_data) \<le> 7 / 10) [0..<length raw_data])"
    "snd (define_windows raw_data) = map (\<lambda>i. raw_data ! i)
        (filter (\<lambda>i. \<not> (real i + 1) / real (length raw_data) \<le> 7 / 10) [0..<length raw_data])"
    by (simp_all add: define_windows_positions)
  ultimately show ?thesis
    using k unfolding Let_def by (metis append_take_drop_id length_append length_take min.absorb2)
qed

section \<open>Properties of the analytics\<close>

lemma fl_0 [simp]: "fl 0 = 0"
  by (simp add: fl_def)

lemma fl_1 [simp]: "fl 1 = 1"
  by (simp add: float64_eval)

lemma fl_tenth: "fl (1 / 10) = 3602879701896397 / 36028797018963968"
  by (simp add: float64_eval)

lemma fl_fiftieth: "fl (2 / 100) = 5764607523034235 / 288230376151711744"
  by (simp add: float64_eval)

lemma round_half_even_nearest: "\<bar>y - of_int (round_half_even y)\<bar> \<le> 1 / 2"
  unfolding round_half_even_def Let_def by (auto simp add: abs_le_iff)

lemma round_half_even_tie:
  assumes "\<bar>y - of_int (round_half_even y)\<bar> = 1 / 2"
  shows "even (round_half_even y)"
proof -
  define f where "f = \<lfloor>y\<rfloor>"
  define d where "d = y - of_int f"
  have d: "0 \<le> d" "d < 1"
    unfolding d_def f_def by linarith+
  have r: "round_half_even y
             = (if d < 1 / 2 then f else if d > 1 / 2 then f + 1 else if even f then f else f + 1)"
    by (simp add: round_half_even_def Let_def f_def d_def)
  from assms have "\<bar>d + of_int f - of_int (round_half_even y)\<bar> = 1 / 2"
    by (simp add: d_def)
  then show ?thesis
    using d unfolding r by (auto simp add: abs_if split: if_splits)
qed

lemma complete_pairs_mem:
  "(x, y) \<in> set (complete_pairs cells) \<longleftrightarrow> (Some x, Some y) \<in> set cells"
  by (induction cells) (auto simp add: complete_pairs_def split: option.splits)

text \<open>Welford's recurrence on a constant first column \<open>c\<close>: after the first row the running
  mean is \<open>c\<close> itself and every deviation from it is zero, so the co-moment stays zero.\<close>

lemma welford_constant:
  assumes "fl c = c" and "\<forall>p \<in> set ps. fst p = c"
    and "(nobs = 0 \<and> meanx = 0 \<and> covxy = 0) \<or> (meanx = c \<and> covxy = 0)"
  shows "\<exists>mx my. foldl welford_step (nobs, meanx, meany, covxy) ps = (nobs + length ps, mx, my, 0)"
  using assms(2,3)
proof (induction ps arbitrary: nobs meanx meany covxy)
  case Nil
  then show ?case by auto
next
  case (Cons p ps)
  obtain vx vy where p: "p = (vx, vy)" by (cases p)
  have vx: "vx = c" using Cons.prems(1) p by simp
  obtain my1 where step:
    "welford_step (nobs, meanx, meany, covxy) p = (nobs + 1, c, my1, 0)"
    using Cons.prems(2) assms(1) by (auto simp add: welford_step_def p vx Let_def)
  have "\<exists>mx my. foldl welford_step (nobs + 1, c, my1, 0) ps = (nobs + 1 + length ps, mx, my, 0)"
    using Cons.prems(1) by (intro Cons.IH) auto
  then show ?case by (simp add: step)
qed

lemma nancorr_cov_constant:
  assumes "fl c = c" and "\<forall>(a, b) \<in> set cells. a = None \<or> a = Some c"
  shows "nancorr_cov cells = None \<or> nancorr_cov cells = Some 0"
proof -
  have "\<forall>p \<in> set (complete_pairs cells). fst p = c"
    using assms(2) by (auto simp add: complete_pairs_mem)
  then obtain mx my where
    "foldl welford_step (0, 0, 0, 0) (complete_pairs cells)
       = (0 + length (complete_pairs cells), mx, my, 0)"
    using welford_constant[OF assms(1), of "complete_pairs cells" 0 0 0 0] by auto
  then show ?thesis by (simp add: nancorr_cov_def Let_def)
qed

text \<open>
  \<^bold>\<open>C6\<close> (beta edge case), as the code has it. On a window that holds a NaN cell in its
  return columns (every window whose returns were built by \<^verbatim>\<open>calc_strategy_returns\<close>
  and \<^verbatim>\<open>calc_market_returns\<close> holds one in its first row) and whose market returns are
  constant (every cell that is not NaN holds the same double \<open>c\<close>), \<^verbatim>\<open>calc_beta\<close>
  returns and stores NaN as beta: both entries of the covariance matrix are zero or
  NaN, and the division of the two \<^verbatim>\<open>numpy.float64\<close> values yields NaN. It is not the
  number zero, and no exception is raised.
\<close>

theorem calc_beta_constant_market:
  assumes "fl c = c"
    and "\<forall>r \<in> set d. Market_Returns r = None \<or> Market_Returns r = Some c"
    and "\<exists>r \<in> set d. Capital_Returns r = None \<or> Market_Returns r = None"
  shows "beta (calc_beta d storage) = Some nan"
proof -
  have na: "\<not> (\<forall>r \<in> set d. Capital_Returns r \<noteq> None \<and> Market_Returns r \<noteq> None)"
    using assms(3) by auto
  have "nancorr_cov (map (\<lambda>r. (Market_Returns r, Capital_Returns r)) d) = None
        \<or> nancorr_cov (map (\<lambda>r. (Market_Returns r, Capital_Returns r)) d) = Some 0"
    using assms(2) by (intro nancorr_cov_constant[OF assms(1)]) auto
  moreover have "nancorr_cov (map (\<lambda>r. (Market_Returns r, Market_Returns r)) d) = None
        \<or> nancorr_cov (map (\<lambda>r. (Market_Returns r, Market_Returns r)) d) = Some 0"
    using assms(2) by (intro nancorr_cov_constant[OF assms(1)]) auto
  ultimately show ?thesis
    using na by (auto simp add: calc_beta_def float64_truediv_def Let_def)
qed

theorem calc_beta_constant_market_witness:
  "beta (calc_beta example_constant_market BacktestDataStorage_init) = Some nan"
proof -
  have "fl (fl (2 / 100)) = fl (2 / 100)"
    unfolding fl_fiftieth by (simp add: float64_eval)
  moreover have "\<forall>r \<in> set example_constant_market.
                   Market_Returns r = None \<or> Market_Returns r = Some (fl (2 / 100))"
    by (simp add: example_constant_market_def)
  moreover have "\<exists>r \<in> set example_constant_market. Capital_Returns r = None \<or> Market_Returns r = None"
    by (simp add: example_constant_market_def)
  ultimately show ?thesis by (rule calc_beta_constant_market)
qed

lemma fl_returns:
  "fl (1 / 100) = 5764607523034235 / 576460752303423488"
  "fl (- 2 / 100) = - (5764607523034235 / 288230376151711744)"
  "fl (3 / 100) = 8646911284551352 / 288230376151711744"
  by (simp_all add: float64_eval)

lemma example_notna_variance:
  "numpy_cov [fl (1 / 10), fl (1 / 10), fl (1 / 10)] [fl (1 / 10), fl (1 / 10), fl (1 / 10)]
     = Some (3 / 2 ^ 113)"
  unfolding fl_tenth
  by (simp add: numpy_cov_def float64_dot_def float64_mean_def float64_sum_def float64_eval)

lemma example_notna_covariance:
  "numpy_cov [fl (1 / 100), fl (- 2 / 100), fl (3 / 100)] [fl (1 / 10), fl (1 / 10), fl (1 / 10)]
     = Some (- (1 / 2 ^ 115))"
  unfolding fl_tenth fl_returns
  by (simp add: numpy_cov_def float64_dot_def float64_mean_def float64_sum_def float64_eval)

lemma example_notna_quotient:
  "fl (- (1 / 2 ^ 115) / (3 / 2 ^ 113)) = - (6004799503160661 / 72057594037927936)"
  by (simp add: float64_eval)

text \<open>
  On a window without any NaN cell the claim fails. The three market returns below are
  all the double 0.1; their sum over 3, rounded, is the next double above 0.1, so every
  deviation from the mean is \<open>-2^-56\<close> and the variance entry of the matrix is \<open>3 / 2^113\<close>
  (about 2.9e-34), not zero. The covariance entry is \<open>-1 / 2^115\<close>, and the beta stored
  is their quotient, the double nearest to \<open>-1/12\<close> (-0.0833...): a number.
\<close>

theorem calc_beta_notna_counterexample:
  "beta (calc_beta example_constant_market_notna BacktestDataStorage_init)
     = Some (Finite (- (6004799503160661 / 72057594037927936)))
   \<and> map Market_Returns example_constant_market_notna
       = [Some (fl (1 / 10)), Some (fl (1 / 10)), Some (fl (1 / 10))]
   \<and> numpy_cov [fl (1 / 10), fl (1 / 10), fl (1 / 10)] [fl (1 / 10), fl (1 / 10), fl (1 / 10)]
       = Some (3 / 2 ^ 113)"
proof -
  have pairs: "complete_pairs (map (\<lambda>r. (Capital_Returns r, Market_Returns r)) example_constant_market_notna)
          = [(fl (1 / 100), fl (1 / 10)), (fl (- 2 / 100), fl (1 / 10)), (fl (3 / 100), fl (1 / 10))]"
    by (simp add: example_constant_market_notna_def complete_pairs_def)
  have notna: "\<forall>r \<in> set example_constant_market_notna.
                   Capital_Returns r \<noteq> None \<and> Market_Returns r \<noteq> None"
    by (simp add: example_constant_market_notna_def del: not_None_eq)
  have "beta (calc_beta example_constant_market_notna BacktestDataStorage_init)
          = Some (float64_truediv (Some (- (1 / 2 ^ 115))) (Some (3 / 2 ^ 113)))"
    unfolding calc_beta_def Let_def pairs
    using notna by (simp only: if_True list.map fst_conv snd_conv
                               example_notna_variance example_notna_covariance) simp
  moreover have "float64_truediv (Some (- (1 / 2 ^ 115))) (Some (3 / 2 ^ 113))
                   = Finite (- (6004799503160661 / 72057594037927936))"
    using example_notna_quotient by (simp add: float64_truediv_def)
  moreover have "map Market_Returns example_constant_market_notna
       = [Some (fl (1 / 10)), Some (fl (1 / 10)), Some (fl (1 / 10))]"
    by (simp add: example_constant_market_notna_def)
  ultimately show ?thesis
    using example_notna_variance by simp
qed

lemma group_values_returns_of:
  "group_values (map (\<lambda>r. (regime r, Capital_Returns r)) d) label = returns_of regime d label"
  by (induction d) (auto simp add: group_values_def returns_of_def split: option.splits)

lemma set_observed_keys:
  "set (observed_keys (map (\<lambda>r. (regime r, v r)) d)) = {k. Some k \<in> regime ` set d}"
  by (induction d) (auto simp add: observed_keys_def split: option.splits)

lemma updated_avg_returns_groupby:
  "updated_avg_returns (groupby_mean keys (map (\<lambda>r. (regime r, Capital_Returns r)) d)) label =
     (if label \<in> set keys
      then Some (map_option (\<lambda>a. py_round2 (fl (a * 100))) (group_mean (returns_of regime d label)))
      else None)"
proof -
  let ?cells = "map (\<lambda>r. (regime r, Capital_Returns r)) d"
  let ?f = "\<lambda>k. map_option (\<lambda>a. py_round2 (fl (a * 100))) (group_mean (group_values ?cells k))"
  have "map (\<lambda>(regime, avg_return).
               (regime, map_option (\<lambda>a. py_round2 (fl (a * 100))) avg_return))
            (groupby_mean keys ?cells) = map (\<lambda>k. (k, ?f k)) keys"
    by (simp add: groupby_mean_def comp_def)
  then have "updated_avg_returns (groupby_mean keys ?cells) label
              = map_of (map (\<lambda>k. (k, ?f k)) keys) label"
    by (simp add: updated_avg_returns_def)
  also have "\<dots> = (if label \<in> set keys then Some (?f label) else None)"
    by (simp add: map_of_map_restrict restrict_map_def)
  finally show ?thesis
    by (simp add: group_values_returns_of)
qed

lemma py_round2_nearest:
  "\<exists>k::int. py_round2 x = fl (of_int k / 100) \<and> \<bar>x * 100 - of_int k\<bar> \<le> 1 / 2
             \<and> (\<bar>x * 100 - of_int k\<bar> = 1 / 2 \<longrightarrow> even k)"
  unfolding py_round2_def
  using round_half_even_nearest[of "x * 100"] round_half_even_tie[of "x * 100"] by blast

text \<open>
  \<^bold>\<open>C9\<close> (regime aggregates). On a storage that holds the annotated rows \<open>d\<close>, both
  functions return. The market dictionary has exactly the labels carried by some row as
  keys, the volatility dictionary the three categories. The value of a key is NaN when no
  row carrying it has a return; otherwise it is the mean of the strategy returns (those
  that are not NaN) of the rows carrying it, times 100, rounded to 2 decimals: the double
  nearest to \<open>k / 100\<close> for the integer \<open>k\<close> that is nearest to the percentage times 100,
  the even one of two that are equally near. The mean, the product and the rounding are
  those of the doubles. The examples after the theorem: for the window
  \<open>example_regimes\<close> (bull returns 0.01 and 0.02, bear returns -0.01 and -0.02) the
  market dictionary is \<^verbatim>\<open>{"bull": 1.5, "bear": -1.5}\<close> and the volatility dictionary
  holds NaN for the category that no bar carries; for one bull bar with the return
  0.02675 the value is 2.67, the product lying just below 2.675.
\<close>

theorem regime_avg_returns:
  assumes "storage_data storage = Some d"
  shows "\<exists>by_market by_volatility.
           calc_market_regime_avg_returns storage
             = Inr (storage\<lparr>market_regime_avg_returns := Some by_market\<rparr>)
         \<and> calc_volatility_regime_avg_returns storage
             = Inr (storage\<lparr>volatility_regime_avg_returns := Some by_volatility\<rparr>)
         \<and> (\<forall>label. by_market label =
               (if Some label \<in> Market_Regime ` set d
                then Some (map_option (\<lambda>a. py_round2 (fl (a * 100)))
                             (group_mean (returns_of Market_Regime d label)))
                else None))
         \<and> (\<forall>regime. by_volatility regime =
               Some (map_option (\<lambda>a. py_round2 (fl (a * 100)))
                       (group_mean (returns_of Volatility_Regime d regime))))
         \<and> group_mean [] = None
         \<and> (\<forall>x. \<exists>k::int. py_round2 x = fl (of_int k / 100) \<and> \<bar>x * 100 - of_int k\<bar> \<le> 1 / 2
                           \<and> (\<bar>x * 100 - of_int k\<bar> = 1 / 2 \<longrightarrow> even k))"
proof -
  let ?mc = "map (\<lambda>r. (Market_Regime r, Capital_Returns r)) d"
  let ?vc = "map (\<lambda>r. (Volatility_Regime r, Capital_Returns r)) d"
  let ?m = "updated_avg_returns (groupby_mean (observed_keys ?mc) ?mc)"
  let ?v = "updated_avg_returns (groupby_mean [low, medium, high] ?vc)"
  have all: "regime \<in> set [low, medium, high]" for regime
    by (cases regime) simp_all
  have "calc_market_regime_avg_returns storage = Inr (storage\<lparr>market_regime_avg_returns := Some ?m\<rparr>)"
    using assms by (simp add: calc_market_regime_avg_returns_def Let_def)
  moreover have "calc_volatility_regime_avg_returns storage
                   = Inr (storage\<lparr>volatility_regime_avg_returns := Some ?v\<rparr>)"
    using assms by (simp add: calc_volatility_regime_avg_returns_def Let_def)
  moreover have "?m label =
               (if Some label \<in> Market_Regime ` set d
                then Some (map_option (\<lambda>a. py_round2 (fl (a * 100)))
                             (group_mean (returns_of Market_Regime d label)))
                else None)" for label
    by (simp only: updated_avg_returns_groupby set_observed_keys mem_Collect_eq)
  moreover have "?v regime =
               Some (map_option (\<lambda>a. py_round2 (fl (a * 100)))
                       (group_mean (returns_of Volatility_Regime d regime)))" for regime
    using all[of regime] by (simp only: updated_avg_returns_groupby if_True)
  moreover have "group_mean [] = None"
    by (simp add: group_mean_def)
  ultimately show ?thesis
    using py_round2_nearest by blast
qed

lemma example_regimes_bull:
  "group_mean [fl (1 / 100), fl (2 / 100)] = Some (1080863910568919 / 72057594037927936)"
  "py_round2 (fl (1080863910568919 / 72057594037927936 * 100)) = 3 / 2"
  by (simp_all add: group_mean_def kahan_step_def py_round2_def float64_eval)

lemma example_regimes_bear:
  "group_mean [fl (- 1 / 100), fl (- 2 / 100)] = Some (- (1080863910568919 / 72057594037927936))"
  "py_round2 (fl (- (1080863910568919 / 72057594037927936) * 100)) = - (3 / 2)"
  by (simp_all add: group_mean_def kahan_step_def py_round2_def float64_eval)

lemma example_near_tie_bull:
  "group_mean [fl (2675 / 100000)] = Some (7710162562058289 / 288230376151711744)"
  "py_round2 (fl (7710162562058289 / 288230376151711744 * 100)) = fl (267 / 100)"
  by (simp_all add: group_mean_def kahan_step_def py_round2_def float64_eval)

theorem regime_avg_returns_witness:
  "(\<exists>by_market by_volatility.
      calc_market_regime_avg_returns (BacktestDataStorage_init\<lparr>storage_data := Some example_regimes\<rparr>)
        = Inr (BacktestDataStorage_init\<lparr>storage_data := Some example_regimes,
                                          market_regime_avg_returns := Some by_market\<rparr>)
    \<and> calc_volatility_regime_avg_returns (BacktestDataStorage_init\<lparr>storage_data := Some example_regimes\<rparr>)
        = Inr (BacktestDataStorage_init\<lparr>storage_data := Some example_regimes,
                                          volatility_regime_avg_returns := Some by_volatility\<rparr>)
    \<and> by_market ''bull'' = Some (Some (3 / 2))
    \<and> by_market ''bear'' = Some (Some (- (3 / 2)))
    \<and> dom by_market = {''bull'', ''bear''}
    \<and> by_volatility medium = Some None)
   \<and> (\<exists>by_market.
      calc_market_regime_avg_returns (BacktestDataStorage_init\<lparr>storage_data := Some example_near_tie\<rparr>)
        = Inr (BacktestDataStorage_init\<lparr>storage_data := Some example_near_tie,
                                          market_regime_avg_returns := Some by_market\<rparr>)
    \<and> by_market ''bull'' = Some (Some (fl (267 / 100))))"
proof -
  let ?s = "BacktestDataStorage_init\<lparr>storage_data := Some example_regimes\<rparr>"
  let ?t = "BacktestDataStorage_init\<lparr>storage_data := Some example_near_tie\<rparr>"
  have bull: "returns_of Market_Regime example_regimes ''bull'' = [fl (1 / 100), fl (2 / 100)]"
    and bear: "returns_of Market_Regime example_regimes ''bear'' = [fl (- 1 / 100), fl (- 2 / 100)]"
    and med: "returns_of Volatility_Regime example_regimes medium = []"
    and tie: "returns_of Market_Regime example_near_tie ''bull'' = [fl (2675 / 100000)]"
    by (simp_all add: returns_of_def example_regimes_def example_near_tie_def)
  have labels: "Some ''bull'' \<in> Market_Regime ` set example_regimes"
               "Some ''bear'' \<in> Market_Regime ` set example_regimes"
               "Some ''bull'' \<in> Market_Regime ` set example_near_tie"
    by (simp_all add: example_regimes_def example_near_tie_def)
  have only: "Some label \<in> Market_Regime ` set example_regimes
                \<longleftrightarrow> label = ''bull'' \<or> label = ''bear''" for label
    by (auto simp add: example_regimes_def)
  have s: "storage_data ?s = Some example_regimes" and t: "storage_data ?t = Some example_near_tie"
    by simp_all
  from regime_avg_returns[OF s] obtain by_market by_volatility where
    m: "calc_market_regime_avg_returns ?s = Inr (?s\<lparr>market_regime_avg_returns := Some by_market\<rparr>)"
    and v: "calc_volatility_regime_avg_returns ?s
              = Inr (?s\<lparr>volatility_regime_avg_returns := Some by_volatility\<rparr>)"
    and ml: "\<forall>label. by_market label =
               (if Some label \<in> Market_Regime ` set example_regimes
                then Some (map_option (\<lambda>a. py_round2 (fl (a * 100)))
                             (group_mean (returns_of Market_Regime example_regimes label)))
                else None)"
    and vl: "\<forall>regime. by_volatility regime =
               Some (map_option (\<lambda>a. py_round2 (fl (a * 100)))
                       (group_mean (returns_of Volatility_Regime example_regimes regime)))"
    by blast
  have b1: "by_market ''bull'' = Some (Some (3 / 2))"
    by (simp only: ml[rule_format] labels if_True bull example_regimes_bull option.map)
  have b2: "by_market ''bear'' = Some (Some (- (3 / 2)))"
    by (simp only: ml[rule_format] labels if_True bear example_regimes_bear option.map)
  have b3: "dom by_market = {''bull'', ''bear''}"
  proof -
    have "by_market label \<noteq> None \<longleftrightarrow> label = ''bull'' \<or> label = ''bear''" for label
      by (simp only: ml[rule_format] only split: if_split) simp
    then show ?thesis by (auto simp only: dom_def)
  qed
  have b4: "by_volatility medium = Some None"
    by (simp only: vl[rule_format] med) (simp add: group_mean_def)
  have part1: "\<exists>by_market by_volatility.
      calc_market_regime_avg_returns ?s = Inr (?s\<lparr>market_regime_avg_returns := Some by_market\<rparr>)
    \<and> calc_volatility_regime_avg_returns ?s = Inr (?s\<lparr>volatility_regime_avg_returns := Some by_volatility\<rparr>)
    \<and> by_market ''bull'' = Some (Some (3 / 2))
    \<and> by_market ''bear'' = Some (Some (- (3 / 2)))
    \<and> dom by_market = {''bull'', ''bear''}
    \<and> by_volatility medium = Some None"
    using m v b1 b2 b3 b4 by (intro exI[of _ by_market] exI[of _ by_volatility] conjI)
  from regime_avg_returns[OF t] obtain tie_market where
    tm: "calc_market_regime_avg_returns ?t = Inr (?t\<lparr>market_regime_avg_returns := Some tie_market\<rparr>)"
    and tl: "\<forall>label. tie_market label =
               (if Some label \<in> Market_Regime ` set example_near_tie
                then Some (map_option (\<lambda>a. py_round2 (fl (a * 100)))
                             (group_mean (returns_of Market_Regime example_near_tie label)))
                else None)"
    by blast
  have "tie_market ''bull'' = Some (Some (fl (267 / 100)))"
    by (simp only: tl[rule_format] labels if_True tie example_near_tie_bull option.map)
  with tm have part2: "\<exists>by_market.
      calc_market_regime_avg_returns ?t = Inr (?t\<lparr>market_regime_avg_returns := Some by_market\<rparr>)
    \<and> by_market ''bull'' = Some (Some (fl (267 / 100)))"
    by (intro exI[of _ tie_market] conjI)
  from part1 part2 show ?thesis by (rule conjI)
qed

section \<open>Properties of the data pipeline\<close>

lemma attempts: "[1..<3 + 1] = [1, 2, 3::nat]"
  by (simp add: upt_rec)

lemma requests_bound: "requests (retry_loop client as delay sent sleeps) \<le> sent + length as"
proof (induction as arbitrary: delay sent sleeps)
  case Nil
  then show ?case by simp
next
  case (Cons a as)
  show ?case
    using Cons.IH[of "delay * 2" "sent + 1" "sleeps @ [delay]"]
    by (auto split: sum.splits bool.splits)
qed

lemma import_historical_data_unfold:
  "import_historical_data client to_row =
     (case outcome (retry_loop client [1, 2, 3] 1 0 []) of
        Inl e \<Rightarrow> \<lparr>outcome = Inl e, requests = requests (retry_loop client [1, 2, 3] 1 0 []),
                  slept = slept (retry_loop client [1, 2, 3] 1 0 [])\<rparr>
      | Inr klines \<Rightarrow>
          \<lparr>outcome = Inr (if klines = [] then [] else map to_row klines),
           requests = requests (retry_loop client [1, 2, 3] 1 0 []),
           slept = slept (retry_loop client [1, 2, 3] 1 0 [])\<rparr>)"
  by (simp only: import_historical_data_def Let_def attempts)

lemma import_requests:
  "requests (import_historical_data client to_row) = requests (retry_loop client [1, 2, 3] 1 0 [])"
  by (simp add: import_historical_data_unfold split: sum.splits)

text \<open>
  Provider errors that carry a code. \<^verbatim>\<open>transient_error\<close> returns \<^verbatim>\<open>True\<close> exactly when
  the code is one of -1000, -1001, -1008, -1015, -1021, and \<^verbatim>\<open>False\<close> for every other
  code. A call of \<^verbatim>\<open>import_historical_data\<close> sends at most three requests. When the
  request of attempt \<open>k\<close> is the first to be answered by an error classified as not
  transient, that error is raised again at once: \<open>k\<close> requests were sent, and only the
  delays after the earlier, transient errors were slept. When all three requests are
  answered by transient errors, the call ends with the final \<^verbatim>\<open>Exception\<close> after three
  requests.
\<close>

lemma coded_error_classification:
  "transient_error (BinanceAPIException code m)
     = Inr (code \<in> {-1000, -1001, -1008, -1015, -1021})
   \<and> requests (import_historical_data client to_row) \<le> 3
   \<and> (k \<in> {1, 2, 3}
        \<and> (\<forall>j. 1 \<le> j \<and> j < k \<longrightarrow> (\<exists>t. client j = Inl t \<and> transient_error t = Inr True))
        \<and> client k = Inl e \<and> transient_error e = Inr False
      \<longrightarrow> import_historical_data client to_row
            = \<lparr>outcome = Inl (Reraised e), requests = k, slept = map (\<lambda>i. 2 ^ i) [0..<k - 1]\<rparr>)
   \<and> ((\<forall>j \<in> {1, 2, 3}. \<exists>t. client j = Inl t \<and> transient_error t = Inr True)
      \<longrightarrow> import_historical_data client to_row
            = \<lparr>outcome = Inl Max_retries_reached, requests = 3, slept = [1, 2, 4]\<rparr>)"
proof (intro conjI impI)
  show "transient_error (BinanceAPIException code m)
     = Inr (code \<in> {-1000, -1001, -1008, -1015, -1021})"
    by (simp add: transient_error_def)
  show "requests (import_historical_data client to_row) \<le> 3"
    using requests_bound[of client "[1, 2, 3]" 1 0 "[]"] by (simp add: import_requests)
  show "import_historical_data client to_row
            = \<lparr>outcome = Inl (Reraised e), requests = k, slept = map (\<lambda>i. 2 ^ i) [0..<k - 1]\<rparr>"
    if h: "k \<in> {1, 2, 3}
        \<and> (\<forall>j. 1 \<le> j \<and> j < k \<longrightarrow> (\<exists>t. client j = Inl t \<and> transient_error t = Inr True))
        \<and> client k = Inl e \<and> transient_error e = Inr False"
  proof -
    have q: "\<exists>t. client j = Inl t \<and> transient_error t = Inr True" if "1 \<le> j" "j < k" for j
      using h that by blast
    have p2: "map (\<lambda>i. 2 ^ i) [0..<2 - 1] = [1::nat]"
      by simp
    have "[0..<3 - 1] = [0, 1::nat]"
      by (simp add: upt_conv_Cons)
    then have p3: "map (\<lambda>i. 2 ^ i) [0..<3 - 1] = [1, 2::nat]"
      by simp
    consider "k = 1" | "k = 2" | "k = 3" using h by auto
    then show ?thesis
    proof cases
      case 1
      then show ?thesis using h by (simp add: import_historical_data_unfold)
    next
      case 2
      obtain t where "client 1 = Inl t" "transient_error t = Inr True"
        using q[of 1] 2 by auto
      then show ?thesis using h unfolding 2 p2 by (simp add: import_historical_data_unfold)
    next
      case 3
      obtain t1 where "client 1 = Inl t1" "transient_error t1 = Inr True"
        using q[of 1] 3 by auto
      moreover obtain t2 where "client 2 = Inl t2" "transient_error t2 = Inr True"
        using q[of 2] 3 by auto
      ultimately show ?thesis using h unfolding 3 p3 by (simp add: import_historical_data_unfold)
    qed
  qed
  show "import_historical_data client to_row
            = \<lparr>outcome = Inl Max_retries_reached, requests = 3, slept = [1, 2, 4]\<rparr>"
    if h: "\<forall>j \<in> {1, 2, 3}. \<exists>t. client j = Inl t \<and> transient_error t = Inr True"
  proof -
    obtain t1 t2 t3 where "client 1 = Inl t1" "transient_error t1 = Inr True"
         "client 2 = Inl t2" "transient_error t2 = Inr True"
         "client 3 = Inl t3" "transient_error t3 = Inr True"
      using h by auto
    then show ?thesis by (simp add: import_historical_data_unfold)
  qed
qed

lemma coded_error_classification_example:
  "import_historical_data example_client (\<lambda>k. k)
     = \<lparr>outcome = Inl (Reraised (BinanceAPIException (-1121) ''Invalid symbol.'')),
        requests = 3, slept = [1, 2]\<rparr>
   \<and> transient_error (BinanceAPIException (-1015) ''Too many new orders.'') = Inr True
   \<and> transient_error (BinanceAPIException (-1121) ''Invalid symbol.'') = Inr False"
proof -
  have c: "transient_error (BinanceAPIException (-1015) ''Too many new orders.'') = Inr True"
          "transient_error (BinanceAPIException (-1121) ''Invalid symbol.'') = Inr False"
    using coded_error_classification[of "-1015" "''Too many new orders.''" example_client "\<lambda>k. k" 3 "BinanceAPIException (-1121) ''Invalid symbol.''"]
          coded_error_classification[of "-1121" "''Invalid symbol.''" example_client "\<lambda>k. k" 3 "BinanceAPIException (-1121) ''Invalid symbol.''"]
    by simp_all
  have early: "\<forall>j. 1 \<le> j \<and> j < (3::nat) \<longrightarrow> (\<exists>t. example_client j = Inl t \<and> transient_error t = Inr True)"
    using c by (simp add: example_client_def)
  have last: "example_client 3 = Inl (BinanceAPIException (-1121) ''Invalid symbol.'')"
    by (simp add: example_client_def)
  have "import_historical_data example_client (\<lambda>k. k)
     = \<lparr>outcome = Inl (Reraised (BinanceAPIException (-1121) ''Invalid symbol.'')),
        requests = 3, slept = map (\<lambda>i. 2 ^ i) [0..<3 - 1]\<rparr>"
    using coded_error_classification[of "-1015" "''Too many new orders.''" example_client "\<lambda>k. k" 3 "BinanceAPIException (-1121) ''Invalid symbol.''"]
          early last c by blast
  moreover have "[0..<3 - 1] = [0, 1::nat]"
    by (simp add: upt_conv_Cons)
  ultimately show ?thesis using c by simp
qed

text \<open>
  \<^bold>\<open>C10\<close> (transient-error classification), as the code has it. The classification is
  not defined for every provider error. \<^verbatim>\<open>import_historical_data\<close> catches both
  \<^verbatim>\<open>BinanceAPIException\<close> and \<^verbatim>\<open>BinanceRequestException\<close> and hands either to
  \<^verbatim>\<open>transient_error\<close>, whose signature accepts both and whose docstring promises a
  \<^verbatim>\<open>bool\<close>. A \<^verbatim>\<open>BinanceRequestException\<close> has no \<^verbatim>\<open>code\<close>: \<^verbatim>\<open>transient_error\<close> raises
  \<^verbatim>\<open>AttributeError\<close> on it, returning neither \<^verbatim>\<open>True\<close> nor \<^verbatim>\<open>False\<close>, and a call of
  \<^verbatim>\<open>import_historical_data\<close> whose first request is answered by one ends with that
  \<^verbatim>\<open>AttributeError\<close> after one request: the provider's error is neither raised again
  nor retried.
\<close>

theorem transient_error_request_exception:
  "transient_error (BinanceRequestException m) = Inl AttributeError
   \<and> transient_error (BinanceRequestException m) \<noteq> Inr True
   \<and> transient_error (BinanceRequestException m) \<noteq> Inr False
   \<and> import_historical_data
        (\<lambda>attempt. if attempt = 1 then Inl (BinanceRequestException m) else later attempt) to_row
       = \<lparr>outcome = Inl (Classification AttributeError), requests = 1, slept = []\<rparr>"
  by (simp add: transient_error_def import_historical_data_unfold)

end
